theory Spec2Isabelle
  imports Main
begin

section \<open>The room-join handler of the client API\<close>

text \<open>
  This theory embeds \<^verbatim>\<open>clientapi/routing/joinroom.go\<close>: the entry point
  \<^verbatim>\<open>JoinRoomByIDOrAlias\<close> and the methods of \<^verbatim>\<open>joinRoomReq\<close> behind it.
  Go strings are byte sequences, so they are \<^typ>\<open>string\<close> here. A Go function
  returning \<^verbatim>\<open>(T, error)\<close> returns \<open>error + T\<close>, one returning only
  \<^verbatim>\<open>error\<close> returns \<open>error option\<close> (\<open>None\<close> is \<^verbatim>\<open>nil\<close>).

  The handler talks to collaborators that live outside this file: the room server's
  query, alias and input APIs, the federation client, the key ring, the account
  database and the functions of gomatrixserverlib. They are the fields of the
  record \<open>Env\<close>, each a function of the arguments the handler passes. Every method
  returns, next to its result, the list of calls it made and log entries it wrote,
  in the order in which they happened.
\<close>

subsection \<open>Data\<close>

type_synonym ServerName = string
type_synonym RoomVersion = string
type_synonym RawJSON = string
type_synonym Time = int
type_synonym Request = string

text \<open>
  Go errors. \<^verbatim>\<open>common.ErrRoomNoExists\<close> is a sentinel the handler compares
  with; \<^verbatim>\<open>gomatrix.HTTPError\<close> is the type it switches on, with its status
  code and message; every other error is opaque.
\<close>

datatype error = ErrRoomNoExists | HTTPError int string | OtherError string

text \<open>A panic of the Go runtime: indexing a slice out of range.\<close>

datatype panic = IndexOutOfRange

datatype JSONValue =
    JNull
  | JBool bool
  | JNumber string
  | JString string
  | JArray "JSONValue list"
  | JObject "(string \<times> JSONValue) list"

type_synonym Content = "string \<rightharpoonup> JSONValue"

text \<open>
  The body of a response: the Matrix errors that \<^verbatim>\<open>jsonerror\<close> builds, named
  after its constructors, the anonymous struct \<^verbatim>\<open>{room_id}\<close> of a successful
  join, and any other body (a response made by the request parser).
\<close>

datatype JSONBody =
    BadJSON string
  | NotFound string
  | UnsupportedRoomVersion string
  | InvalidArgumentValue string
  | InternalServerErrorBody
  | RoomIDBody string
  | OtherBody RawJSON

record JSONResponse =
  Code :: int
  JSON :: JSONBody

text \<open>
  Modelled from the spec: \<^verbatim>\<open>jsonerror.InternalServerError\<close> is not among the
  sources. The specification maps an internal or upstream failure with no more specific
  classification to status 500; the body is kept opaque.
\<close>

definition InternalServerError :: JSONResponse where
  "InternalServerError = \<lparr>Code = 500, JSON = InternalServerErrorBody\<rparr>"

record Device =
  UserID :: string

record Profile =
  DisplayName :: string
  AvatarURL :: string

text \<open>The part of \<^verbatim>\<open>cfg.Matrix\<close> that the handler reads.\<close>

record Config =
  ServerName :: ServerName
  KeyID :: string
  PrivateKey :: string

text \<open>
  \<^verbatim>\<open>gomatrixserverlib.EventBuilder\<close>. \<^verbatim>\<open>StateKey\<close> is a pointer to a string,
  the raw JSON fields are byte slices (\<open>[]\<close> for \<^verbatim>\<open>nil\<close>).
\<close>

record EventBuilder =
  Sender :: string
  RoomID :: string
  Type :: string
  StateKey :: "string option"
  PrevEvents :: RawJSON
  AuthEvents :: RawJSON
  Redacts :: string
  Depth :: int
  Signatures :: RawJSON
  Content :: RawJSON
  Unsigned :: RawJSON

text \<open>The zero value that \<^verbatim>\<open>var eb gomatrixserverlib.EventBuilder\<close> declares.\<close>

definition zeroEventBuilder :: EventBuilder where
  "zeroEventBuilder =
     \<lparr>Sender = [], RoomID = [], Type = [], StateKey = None, PrevEvents = [],
      AuthEvents = [], Redacts = [], Depth = 0, Signatures = [], Content = [],
      Unsigned = []\<rparr>"

text \<open>A signed event, and a signed event together with its room version.\<close>

datatype Event = Event RawJSON

datatype HeaderedEvent = Headered Event RoomVersion

datatype RespStateT = StateSnapshot RawJSON

record RespSendJoin =
  RespState :: RespStateT

record RespMakeJoin =
  JoinEvent :: EventBuilder
  RoomVersion :: RoomVersion

text \<open>
  \<^verbatim>\<open>gomatrixserverlib.RoomVersionV1\<close>, the version a room has when the
  make-join response names none.
\<close>

definition RoomVersionV1 :: RoomVersion where
  "RoomVersionV1 = ''1''"

subsection \<open>Calls and log entries\<close>

datatype Call =
    CallGetProfileByLocalpart string
  | CallQueryInvitesForUser string string
  | CallGetRoomIDForAlias string
  | CallLookupRoomAlias ServerName string
  | CallBuildEvent EventBuilder Config Time
  | CallSendEvents "HeaderedEvent list" ServerName
  | CallQueryRoomVersionCapabilities
  | CallMakeJoin ServerName string string "RoomVersion list"
  | CallBuild EventBuilder Time ServerName string string RoomVersion
  | CallSendJoin ServerName Event RoomVersion
  | CallCheck RespSendJoin Event
  | CallSendEventWithState RespStateT HeaderedEvent
  | LogError "error option" string
  | LogWarn "error option" ServerName string

subsection \<open>Collaborators\<close>

text \<open>
  \<open>UnmarshalJSONRequest\<close> yields the response to send when the body is not valid, else
  the decoded object (the source requires it to be a JSON object). \<open>ParseTSParam\<close>
  yields the text of its error, which is all the handler uses of it.
  \<open>QueryRoomVersionCapabilities\<close> yields the entries of
  \<^verbatim>\<open>AvailableRoomVersions\<close> in the order in which \<^verbatim>\<open>range\<close> visits them.
  \<open>BuildEvent\<close> yields the event together with the room version it stores in the
  query response. \<open>SetContent\<close> is the JSON encoding of the content that
  \<^verbatim>\<open>EventBuilder.SetContent\<close> stores.
\<close>

record Env =
  UnmarshalJSONRequest :: "Request \<Rightarrow> JSONResponse + Content"
  ParseTSParam :: "Request \<Rightarrow> string + Time"
  SplitID :: "char \<Rightarrow> string \<Rightarrow> error + (string \<times> ServerName)"
  GetProfileByLocalpart :: "string \<Rightarrow> error + Profile"
  QueryInvitesForUser :: "string \<Rightarrow> string \<Rightarrow> error + string list"
  GetRoomIDForAlias :: "string \<Rightarrow> error + string"
  LookupRoomAlias :: "ServerName \<Rightarrow> string \<Rightarrow> error + (string \<times> ServerName list)"
  SetContent :: "Content \<Rightarrow> error + RawJSON"
  BuildEvent :: "EventBuilder \<Rightarrow> Config \<Rightarrow> Time \<Rightarrow> error + (Event \<times> RoomVersion)"
  SendEvents :: "HeaderedEvent list \<Rightarrow> ServerName \<Rightarrow> error option"
  QueryRoomVersionCapabilities :: "error + (RoomVersion \<times> string) list"
  MakeJoin :: "ServerName \<Rightarrow> string \<Rightarrow> string \<Rightarrow> RoomVersion list \<Rightarrow> error + RespMakeJoin"
  EventFormat :: "RoomVersion \<Rightarrow> error + nat"
  Build :: "EventBuilder \<Rightarrow> Time \<Rightarrow> ServerName \<Rightarrow> string \<Rightarrow> string \<Rightarrow> RoomVersion
            \<Rightarrow> error + Event"
  SendJoin :: "ServerName \<Rightarrow> Event \<Rightarrow> RoomVersion \<Rightarrow> error + RespSendJoin"
  Check :: "RespSendJoin \<Rightarrow> Event \<Rightarrow> error option"
  SendEventWithState :: "RespStateT \<Rightarrow> HeaderedEvent \<Rightarrow> error option"

text \<open>
  \<^verbatim>\<open>joinRoomReq\<close>, without the collaborator handles, which are in \<open>Env\<close>.
\<close>

record joinRoomReq =
  req :: Request
  evTime :: Time
  content :: Content
  userID :: string
  cfg :: Config

subsection \<open>Strings\<close>

definition HasPrefix :: "string \<Rightarrow> string \<Rightarrow> bool" where
  "HasPrefix s p = (take (length p) s = p)"

abbreviation quote :: char where
  "quote \<equiv> CHR 0x27"

text \<open>
  \<^verbatim>\<open>string([]rune(s)[0])\<close>. The conversion to runes decodes UTF-8: a well-formed
  sequence at the start of the string is one rune, and a byte that starts none is the
  rune U+FFFD. \<open>firstRuneWidth\<close> is the number of bytes of the well-formed sequence at
  the start, or 0 when there is none. Converting the rune back gives the same bytes,
  or the three bytes of U+FFFD. Indexing the empty slice of runes panics.
\<close>

definition isContinuation :: "nat \<Rightarrow> bool" where
  "isContinuation b = (0x80 \<le> b \<and> b \<le> 0xBF)"

fun firstRuneWidth :: "nat list \<Rightarrow> nat" where
  "firstRuneWidth [] = 0"
| "firstRuneWidth (b0 # bs) =
     (if b0 < 0x80 then 1
      else if 0xC2 \<le> b0 \<and> b0 \<le> 0xDF then
        (case bs of
           b1 # _ \<Rightarrow> if isContinuation b1 then 2 else 0
         | _ \<Rightarrow> 0)
      else if 0xE0 \<le> b0 \<and> b0 \<le> 0xEF then
        (case bs of
           b1 # b2 # _ \<Rightarrow>
             if (if b0 = 0xE0 then 0xA0 else 0x80) \<le> b1
                \<and> b1 \<le> (if b0 = 0xED then 0x9F else 0xBF)
                \<and> isContinuation b2
             then 3 else 0
         | _ \<Rightarrow> 0)
      else if 0xF0 \<le> b0 \<and> b0 \<le> 0xF4 then
        (case bs of
           b1 # b2 # b3 # _ \<Rightarrow>
             if (if b0 = 0xF0 then 0x90 else 0x80) \<le> b1
                \<and> b1 \<le> (if b0 = 0xF4 then 0x8F else 0xBF)
                \<and> isContinuation b2 \<and> isContinuation b3
             then 4 else 0
         | _ \<Rightarrow> 0)
      else 0)"

definition firstRuneString :: "string \<Rightarrow> panic + string" where
  "firstRuneString s =
     (if s = [] then Inl IndexOutOfRange
      else
        (let n = firstRuneWidth (map of_char s)
         in Inr (if n = 0 then [CHR 0xEF, CHR 0xBF, CHR 0xBD] else take n s)))"

subsection \<open>writeToBuilder\<close>

text \<open>
  \<^verbatim>\<open>eb.SetUnsigned(struct{}{})\<close> stores the JSON encoding of the empty struct,
  which is the empty object, and cannot fail.
\<close>

definition SetUnsignedEmptyStruct :: "error + RawJSON" where
  "SetUnsignedEmptyStruct = Inr ''{}''"

text \<open>
  The Go method writes through the pointer and returns an error; here the builder is
  returned. On an error the callers drop the builder, so the partly written one is
  not returned.
\<close>

definition writeToBuilder ::
  "Env \<Rightarrow> joinRoomReq \<Rightarrow> EventBuilder \<Rightarrow> string \<Rightarrow> error + EventBuilder" where
  "writeToBuilder env r eb roomID =
     (let eb1 = eb\<lparr>Type := ''m.room.member''\<rparr> in
      case SetContent env (content r) of
        Inl err \<Rightarrow> Inl err
      | Inr c \<Rightarrow>
          (let eb2 = eb1\<lparr>Content := c\<rparr> in
           case SetUnsignedEmptyStruct of
             Inl err \<Rightarrow> Inl err
           | Inr u \<Rightarrow>
               Inr (eb2\<lparr>Unsigned := u, Sender := userID r, StateKey := Some (userID r),
                        RoomID := roomID, Redacts := []\<rparr>)))"

subsection \<open>joinRoomUsingServer\<close>

definition joinRoomUsingServer ::
  "Env \<Rightarrow> joinRoomReq \<Rightarrow> string \<Rightarrow> ServerName \<Rightarrow> (error + JSONResponse) \<times> Call list" where
  "joinRoomUsingServer env r roomID server =
     (let t1 = [CallQueryRoomVersionCapabilities] in
      case QueryRoomVersionCapabilities env of
        Inl err \<Rightarrow> (Inl err, t1)
      | Inr availableRoomVersions \<Rightarrow>
     (let supportedVersions = map fst availableRoomVersions;
          t2 = t1 @ [CallMakeJoin server roomID (userID r) supportedVersions] in
      case MakeJoin env server roomID (userID r) supportedVersions of
        Inl err \<Rightarrow> (Inl err, t2)
      | Inr respMakeJoin \<Rightarrow>
     (case writeToBuilder env r (JoinEvent respMakeJoin) roomID of
        Inl err \<Rightarrow> (Inl err, t2)
      | Inr joinEvent \<Rightarrow>
     (let roomVersion =
            (if RoomVersion respMakeJoin = [] then RoomVersionV1
             else RoomVersion respMakeJoin) in
      case EventFormat env roomVersion of
        Inl err \<Rightarrow>
          (Inr \<lparr>Code = 400,
                JSON = UnsupportedRoomVersion
                  (''Room version '' @ [quote] @ roomVersion @ [quote]
                   @ '' is not supported'')\<rparr>, t2)
      | Inr _ \<Rightarrow>
     (let t3 = t2 @ [CallBuild joinEvent (evTime r) (ServerName (cfg r)) (KeyID (cfg r))
                       (PrivateKey (cfg r)) roomVersion] in
      case Build env joinEvent (evTime r) (ServerName (cfg r)) (KeyID (cfg r))
             (PrivateKey (cfg r)) roomVersion of
        Inl err \<Rightarrow>
          (Inr InternalServerError,
           t3 @ [LogError (Some err) ''respMakeJoin.JoinEvent.Build failed''])
      | Inr event \<Rightarrow>
     (let t4 = t3 @ [CallSendJoin server event roomVersion] in
      case SendJoin env server event roomVersion of
        Inl err \<Rightarrow> (Inl err, t4)
      | Inr respSendJoin \<Rightarrow>
     (let t5 = t4 @ [CallCheck respSendJoin event] in
      case Check env respSendJoin event of
        Some err \<Rightarrow> (Inl err, t5)
      | None \<Rightarrow>
     (let t6 = t5 @ [CallSendEventWithState (RespState respSendJoin)
                       (Headered event roomVersion)] in
      case SendEventWithState env (RespState respSendJoin) (Headered event roomVersion) of
        Some err \<Rightarrow>
          (Inr InternalServerError,
           t6 @ [LogError (Some err) ''gomatrixserverlib.RespState failed''])
      | None \<Rightarrow> (Inr \<lparr>Code = 200, JSON = RoomIDBody roomID\<rparr>, t6)))))))))"

subsection \<open>joinRoomUsingServers\<close>

text \<open>
  The loop over the candidate servers, with \<^verbatim>\<open>lastErr\<close> as it stands when the
  remaining servers are tried, and the log entry and response after the loop.
\<close>

fun tryServers ::
  "Env \<Rightarrow> joinRoomReq \<Rightarrow> string \<Rightarrow> ServerName list \<Rightarrow> error option
   \<Rightarrow> JSONResponse \<times> Call list" where
  "tryServers env r roomID [] lastErr =
     (InternalServerError, [LogError lastErr ''failed to join through any server''])"
| "tryServers env r roomID (server # servers) lastErr =
     (case joinRoomUsingServer env r roomID server of
        (Inl err, t) \<Rightarrow>
          (let (response, t') = tryServers env r roomID servers (Some err) in
           (response,
            t @ [LogWarn (Some err) server ''Failed to join room using server''] @ t'))
      | (Inr response, t) \<Rightarrow> (response, t))"

definition joinRoomUsingServers ::
  "Env \<Rightarrow> joinRoomReq \<Rightarrow> string \<Rightarrow> ServerName list \<Rightarrow> JSONResponse \<times> Call list" where
  "joinRoomUsingServers env r roomID servers =
     (case writeToBuilder env r zeroEventBuilder roomID of
        Inl err \<Rightarrow> (InternalServerError, [LogError (Some err) ''r.writeToBuilder failed''])
      | Inr eb \<Rightarrow>
     (let t1 = [CallBuildEvent eb (cfg r) (evTime r)] in
      case BuildEvent env eb (cfg r) (evTime r) of
        Inr (event, roomVersion) \<Rightarrow>
          (let t2 = t1 @ [CallSendEvents [Headered event roomVersion] (ServerName (cfg r))] in
           case SendEvents env [Headered event roomVersion] (ServerName (cfg r)) of
             Some err \<Rightarrow>
               (InternalServerError,
                t2 @ [LogError (Some err) ''r.producer.SendEvents failed''])
           | None \<Rightarrow> (\<lparr>Code = 200, JSON = RoomIDBody roomID\<rparr>, t2))
      | Inl err \<Rightarrow>
          if err \<noteq> ErrRoomNoExists then
            (InternalServerError, t1 @ [LogError (Some err) ''common.BuildEvent failed''])
          else if length servers = 0 then
            (\<lparr>Code = 404, JSON = NotFound ''No candidate servers found for room''\<rparr>, t1)
          else
            (let (response, t) = tryServers env r roomID servers None in
             (response, t1 @ t))))"

subsection \<open>joinRoomByID\<close>

text \<open>
  The loop over the inviters. \<^verbatim>\<open>seenInInviterIDs\<close> is a Go map to booleans, read
  as false at a key it does not hold: a function to \<^typ>\<open>bool\<close>.
\<close>

fun inviterServers ::
  "Env \<Rightarrow> string list \<Rightarrow> ServerName list \<Rightarrow> (ServerName \<Rightarrow> bool)
   \<Rightarrow> error + (ServerName list \<times> (ServerName \<Rightarrow> bool))" where
  "inviterServers env [] servers seenInInviterIDs = Inr (servers, seenInInviterIDs)"
| "inviterServers env (inviter # rest) servers seenInInviterIDs =
     (case SplitID env (CHR ''@'') inviter of
        Inl err \<Rightarrow> Inl err
      | Inr (_, domain) \<Rightarrow>
          if \<not> seenInInviterIDs domain then
            inviterServers env rest (servers @ [domain]) (seenInInviterIDs(domain := True))
          else inviterServers env rest servers seenInInviterIDs)"

text \<open>
  The candidate servers that \<^verbatim>\<open>joinRoomByID\<close> computes from the invite senders
  and the room ID, or the error of the \<^verbatim>\<open>SplitID\<close> that failed.
\<close>

definition candidateServers ::
  "Env \<Rightarrow> joinRoomReq \<Rightarrow> string \<Rightarrow> string list \<Rightarrow> error + ServerName list" where
  "candidateServers env r roomID inviteSenderUserIDs =
     (case inviterServers env inviteSenderUserIDs [] (\<lambda>_. False) of
        Inl err \<Rightarrow> Inl err
      | Inr (servers, seenInInviterIDs) \<Rightarrow>
          (case SplitID env (CHR ''!'') roomID of
             Inl err \<Rightarrow> Inl err
           | Inr (_, domain) \<Rightarrow>
               if domain \<noteq> ServerName (cfg r) \<and> \<not> seenInInviterIDs domain then
                 Inr (servers @ [domain])
               else Inr servers))"

definition joinRoomByID ::
  "Env \<Rightarrow> joinRoomReq \<Rightarrow> string \<Rightarrow> JSONResponse \<times> Call list" where
  "joinRoomByID env r roomID =
     (let t0 = [CallQueryInvitesForUser roomID (userID r)] in
      case QueryInvitesForUser env roomID (userID r) of
        Inl err \<Rightarrow>
          (InternalServerError,
           t0 @ [LogError (Some err) ''r.queryAPI.QueryInvitesForUser failed''])
      | Inr inviteSenderUserIDs \<Rightarrow>
          (case candidateServers env r roomID inviteSenderUserIDs of
             Inl err \<Rightarrow>
               (InternalServerError,
                t0 @ [LogError (Some err) ''gomatrixserverlib.SplitID failed''])
           | Inr servers \<Rightarrow>
               (let (response, t) = joinRoomUsingServers env r roomID servers in
                (response, t0 @ t))))"

subsection \<open>joinRoomByAlias and joinRoomByRemoteAlias\<close>

definition joinRoomByRemoteAlias ::
  "Env \<Rightarrow> joinRoomReq \<Rightarrow> ServerName \<Rightarrow> string \<Rightarrow> JSONResponse \<times> Call list" where
  "joinRoomByRemoteAlias env r domain roomAlias =
     (let t0 = [CallLookupRoomAlias domain roomAlias] in
      case LookupRoomAlias env domain roomAlias of
        Inl err \<Rightarrow>
          (case err of
             HTTPError code _ \<Rightarrow>
               if code = 404 then
                 (\<lparr>Code = 404, JSON = NotFound ''Room alias not found''\<rparr>, t0)
               else
                 (InternalServerError,
                  t0 @ [LogError (Some err) ''r.federation.LookupRoomAlias failed''])
           | _ \<Rightarrow>
               (InternalServerError,
                t0 @ [LogError (Some err) ''r.federation.LookupRoomAlias failed'']))
      | Inr (roomID, servers) \<Rightarrow>
          (let (response, t) = joinRoomUsingServers env r roomID servers in
           (response, t0 @ t)))"

definition joinRoomByAlias ::
  "Env \<Rightarrow> joinRoomReq \<Rightarrow> string \<Rightarrow> JSONResponse \<times> Call list" where
  "joinRoomByAlias env r roomAlias =
     (case SplitID env (CHR ''#'') roomAlias of
        Inl err \<Rightarrow>
          (\<lparr>Code = 400,
            JSON = BadJSON (''Room alias must be in the form '' @ [quote]
                            @ ''#localpart:domain'' @ [quote])\<rparr>, [])
      | Inr (_, domain) \<Rightarrow>
          if domain = ServerName (cfg r) then
            (let t0 = [CallGetRoomIDForAlias roomAlias] in
             case GetRoomIDForAlias env roomAlias of
               Inl err \<Rightarrow>
                 (InternalServerError,
                  t0 @ [LogError (Some err) ''r.aliasAPI.GetRoomIDForAlias failed''])
             | Inr roomID \<Rightarrow>
                 if length roomID > 0 then
                   (let (response, t) =
                          joinRoomUsingServers env r roomID [ServerName (cfg r)] in
                    (response, t0 @ t))
                 else
                   (\<lparr>Code = 404,
                     JSON = NotFound (''Room alias '' @ roomAlias @ '' not found.'')\<rparr>, t0))
          else joinRoomByRemoteAlias env r domain roomAlias)"

subsection \<open>JoinRoomByIDOrAlias\<close>

text \<open>
  The entry point returns a response or panics. The last branch builds its message
  from the first rune of the target.
\<close>

definition JoinRoomByIDOrAlias ::
  "Env \<Rightarrow> Request \<Rightarrow> Device \<Rightarrow> string \<Rightarrow> Config \<Rightarrow> (panic + JSONResponse) \<times> Call list" where
  "JoinRoomByIDOrAlias env request device roomIDOrAlias config =
     (case UnmarshalJSONRequest env request of
        Inl resErr \<Rightarrow> (Inr resErr, [])
      | Inr body \<Rightarrow>
     (case ParseTSParam env request of
        Inl msg \<Rightarrow> (Inr \<lparr>Code = 400, JSON = InvalidArgumentValue msg\<rparr>, [])
      | Inr ts \<Rightarrow>
     (case SplitID env (CHR ''@'') (UserID device) of
        Inl err \<Rightarrow>
          (Inr InternalServerError,
           [LogError (Some err) ''gomatrixserverlib.SplitID failed''])
      | Inr (localpart, _) \<Rightarrow>
     (let t0 = [CallGetProfileByLocalpart localpart] in
      case GetProfileByLocalpart env localpart of
        Inl err \<Rightarrow>
          (Inr InternalServerError,
           t0 @ [LogError (Some err) ''accountDB.GetProfileByLocalpart failed''])
      | Inr profile \<Rightarrow>
     (let r = \<lparr>req = request, evTime = ts,
               content = body(''membership'' \<mapsto> JString ''join'',
                              ''displayname'' \<mapsto> JString (DisplayName profile),
                              ''avatar_url'' \<mapsto> JString (AvatarURL profile)),
               userID = UserID device, cfg = config\<rparr> in
      if HasPrefix roomIDOrAlias ''!'' then
        (let (response, t) = joinRoomByID env r roomIDOrAlias in (Inr response, t0 @ t))
      else if HasPrefix roomIDOrAlias ''#'' then
        (let (response, t) = joinRoomByAlias env r roomIDOrAlias in (Inr response, t0 @ t))
      else
        (case firstRuneString roomIDOrAlias of
           Inl p \<Rightarrow> (Inl p, t0)
         | Inr c \<Rightarrow>
             (Inr \<lparr>Code = 400,
                   JSON = BadJSON (''Invalid first character '' @ [quote] @ c @ [quote]
                                   @ '' for room ID or alias'')\<rparr>, t0)))))))"

subsection \<open>Observations on the list of calls\<close>

text \<open>
  The calls that only the handshake with a remote server makes, the event builder a
  call finalises into an event, and the room version a call builds, sends or publishes
  an event with.
\<close>

fun isFederatedCall :: "Call \<Rightarrow> bool" where
  "isFederatedCall CallQueryRoomVersionCapabilities = True"
| "isFederatedCall (CallMakeJoin _ _ _ _) = True"
| "isFederatedCall (CallBuild _ _ _ _ _ _) = True"
| "isFederatedCall (CallSendJoin _ _ _) = True"
| "isFederatedCall (CallCheck _ _) = True"
| "isFederatedCall (CallSendEventWithState _ _) = True"
| "isFederatedCall _ = False"

fun finalisedBuilder :: "Call \<Rightarrow> EventBuilder option" where
  "finalisedBuilder (CallBuildEvent eb _ _) = Some eb"
| "finalisedBuilder (CallBuild eb _ _ _ _ _) = Some eb"
| "finalisedBuilder _ = None"

fun federatedVersion :: "Call \<Rightarrow> RoomVersion option" where
  "federatedVersion (CallBuild _ _ _ _ _ v) = Some v"
| "federatedVersion (CallSendJoin _ _ v) = Some v"
| "federatedVersion (CallSendEventWithState _ (Headered _ v)) = Some v"
| "federatedVersion _ = None"

text \<open>
  The room version the handshake goes on with: the one of the make-join response, or
  \<open>RoomVersionV1\<close> when the response names none.
\<close>

definition effectiveRoomVersion :: "RespMakeJoin \<Rightarrow> RoomVersion" where
  "effectiveRoomVersion respMakeJoin =
     (if RoomVersion respMakeJoin = [] then RoomVersionV1 else RoomVersion respMakeJoin)"

text \<open>
  The fields of a membership event that the joining server decides: what
  \<^verbatim>\<open>writeToBuilder\<close> writes for a request and a room.
\<close>

definition joinFields :: "Env \<Rightarrow> joinRoomReq \<Rightarrow> string \<Rightarrow> EventBuilder \<Rightarrow> bool" where
  "joinFields env r roomID eb =
     (Type eb = ''m.room.member''
      \<and> SetContent env (content r) = Inr (Content eb)
      \<and> Unsigned eb = ''{}''
      \<and> Sender eb = userID r
      \<and> StateKey eb = Some (userID r)
      \<and> RoomID eb = roomID
      \<and> Redacts eb = [])"

text \<open>
  The calls and log entries of the loop while every server of a list fails: each
  attempt's own calls, then the warning with its error.
\<close>

definition attemptError :: "Env \<Rightarrow> joinRoomReq \<Rightarrow> string \<Rightarrow> ServerName \<Rightarrow> error option" where
  "attemptError env r roomID server =
     (case fst (joinRoomUsingServer env r roomID server) of
        Inl err \<Rightarrow> Some err
      | Inr _ \<Rightarrow> None)"

definition failedAttempts :: "Env \<Rightarrow> joinRoomReq \<Rightarrow> string \<Rightarrow> ServerName list \<Rightarrow> Call list" where
  "failedAttempts env r roomID servers =
     concat (map (\<lambda>server.
        snd (joinRoomUsingServer env r roomID server)
        @ [LogWarn (attemptError env r roomID server) server
             ''Failed to join room using server'']) servers)"

subsection \<open>The candidate list, as the specification words it\<close>

text \<open>
  The distinct elements of a list in the order of their first occurrence, and the
  server name of an inviter's user ID.
\<close>

fun firstSeen :: "'a list \<Rightarrow> 'a list" where
  "firstSeen [] = []"
| "firstSeen (x # xs) = x # firstSeen (filter (\<lambda>y. y \<noteq> x) xs)"

definition inviterDomain :: "Env \<Rightarrow> string \<Rightarrow> ServerName option" where
  "inviterDomain env inviter =
     (case SplitID env (CHR ''@'') inviter of
        Inl _ \<Rightarrow> None
      | Inr (_, domain) \<Rightarrow> Some domain)"

subsection \<open>A sample deployment\<close>

text \<open>
  Concrete collaborators on which the theorems below are instantiated. The sample
  \<open>SplitID\<close> follows gomatrixserverlib: the ID starts with the sigil and is split at
  its first colon. The local server supports room version 2 only, every remote
  server answers make-join with a template that names another sender and no room
  version, and the room is not known locally.
\<close>

definition sampleSplitID :: "char \<Rightarrow> string \<Rightarrow> error + (string \<times> ServerName)" where
  "sampleSplitID sigil ident =
     (if ident = [] \<or> hd ident \<noteq> sigil then Inl (OtherError ''invalid ID: wrong sigil'')
      else if CHR '':'' \<notin> set ident then Inl (OtherError ''invalid ID: missing colon'')
      else Inr (tl (takeWhile (\<lambda>c. c \<noteq> CHR '':'') ident),
                tl (dropWhile (\<lambda>c. c \<noteq> CHR '':'') ident)))"

definition sampleConfig :: Config where
  "sampleConfig = \<lparr>ServerName = ''local.example'', KeyID = ''ed25519:1'', PrivateKey = ''k''\<rparr>"

definition sampleTemplate :: EventBuilder where
  "sampleTemplate =
     zeroEventBuilder\<lparr>Sender := ''@mallory:evil.example'', Type := ''m.room.create'',
       StateKey := None, Redacts := ''$other'', Unsigned := ''{x}'', Depth := 7\<rparr>"

definition sampleEnv :: Env where
  "sampleEnv =
     \<lparr>UnmarshalJSONRequest = (\<lambda>_. Inr Map.empty),
      ParseTSParam = (\<lambda>_. Inr 0),
      SplitID = sampleSplitID,
      GetProfileByLocalpart = (\<lambda>_. Inr \<lparr>DisplayName = ''Alice'', AvatarURL = []\<rparr>),
      QueryInvitesForUser =
        (\<lambda>_ _. Inr [''@bob:b.example'', ''@carol:c.example'', ''@dave:b.example'']),
      GetRoomIDForAlias = (\<lambda>_. Inr ''!room:local.example''),
      LookupRoomAlias = (\<lambda>_ _. Inr (''!room:b.example'', [''b.example''])),
      SetContent = (\<lambda>_. Inr ''{join}''),
      BuildEvent = (\<lambda>_ _ _. Inl ErrRoomNoExists),
      SendEvents = (\<lambda>_ _. None),
      QueryRoomVersionCapabilities = Inr [(''2'', ''stable'')],
      MakeJoin = (\<lambda>server _ _ _.
        if server = ''down.example'' then Inl (OtherError ''connection refused'')
        else if server = ''new.example'' then
          Inr \<lparr>JoinEvent = sampleTemplate, RoomVersion = ''99''\<rparr>
        else Inr \<lparr>JoinEvent = sampleTemplate, RoomVersion = []\<rparr>),
      EventFormat = (\<lambda>v. if v = ''1'' \<or> v = ''2'' then Inr 1
                          else Inl (OtherError ''unsupported room version'')),
      Build = (\<lambda>eb _ _ _ _ v. Inr (Event (Sender eb @ '' joins '' @ RoomID eb))),
      SendJoin = (\<lambda>server _ _.
        if server = ''forged.example'' then Inr \<lparr>RespState = StateSnapshot ''forged''\<rparr>
        else Inr \<lparr>RespState = StateSnapshot ''state''\<rparr>),
      Check = (\<lambda>resp _.
        if RespState resp = StateSnapshot ''forged'' then Some (OtherError ''bad signature'')
        else None),
      SendEventWithState = (\<lambda>_ _. None)\<rparr>"

definition sampleReq :: joinRoomReq where
  "sampleReq =
     \<lparr>req = ''{}'', evTime = 0, content = [''membership'' \<mapsto> JString ''join''],
      userID = ''@alice:local.example'', cfg = sampleConfig\<rparr>"

text \<open>The same deployment with the room known locally, at version 2.\<close>

definition sampleEnvLocal :: Env where
  "sampleEnvLocal =
     sampleEnv\<lparr>BuildEvent :=
       (\<lambda>eb _ _. Inr (Event (Sender eb @ '' joins '' @ RoomID eb), ''2''))\<rparr>"

text \<open>The room known locally, with a producer that refuses the event.\<close>

definition sampleEnvPublishFails :: Env where
  "sampleEnvPublishFails =
     sampleEnvLocal\<lparr>SendEvents := (\<lambda>_ _. Some (OtherError ''queue unavailable''))\<rparr>"

definition sampleBuilder :: EventBuilder where
  "sampleBuilder =
     \<lparr>Sender = ''@alice:local.example'', RoomID = ''!room:b.example'',
      Type = ''m.room.member'', StateKey = Some ''@alice:local.example'',
      PrevEvents = [], AuthEvents = [], Redacts = [], Depth = 0, Signatures = [],
      Content = ''{join}'', Unsigned = ''{}''\<rparr>"

definition sampleDevice :: Device where
  "sampleDevice = \<lparr>UserID = ''@alice:local.example''\<rparr>"

section \<open>Properties\<close>

subsection \<open>The outcomes of one handshake\<close>

text \<open>
  A handshake with one server ends in one of nine ways, each with its result and its
  calls: the first collaborator that fails decides.
\<close>

lemma joinRoomUsingServer_cases [case_names QueryFailed MakeJoinFailed BuilderFailed
    UnsupportedVersion BuildFailed SendJoinFailed CheckFailed PublishFailed Joined]:
  fixes env r roomID server
  defines "res \<equiv> joinRoomUsingServer env r roomID server"
  obtains
    err where "QueryRoomVersionCapabilities env = Inl err"
      "res = (Inl err, [CallQueryRoomVersionCapabilities])"
  | avail err where "QueryRoomVersionCapabilities env = Inr avail"
      "MakeJoin env server roomID (userID r) (map fst avail) = Inl err"
      "res = (Inl err, [CallQueryRoomVersionCapabilities,
                        CallMakeJoin server roomID (userID r) (map fst avail)])"
  | avail mj err where "QueryRoomVersionCapabilities env = Inr avail"
      "MakeJoin env server roomID (userID r) (map fst avail) = Inr mj"
      "writeToBuilder env r (JoinEvent mj) roomID = Inl err"
      "res = (Inl err, [CallQueryRoomVersionCapabilities,
                        CallMakeJoin server roomID (userID r) (map fst avail)])"
  | avail mj eb err where "QueryRoomVersionCapabilities env = Inr avail"
      "MakeJoin env server roomID (userID r) (map fst avail) = Inr mj"
      "writeToBuilder env r (JoinEvent mj) roomID = Inr eb"
      "EventFormat env (effectiveRoomVersion mj) = Inl err"
      "res = (Inr \<lparr>Code = 400,
                   JSON = UnsupportedRoomVersion
                     (''Room version '' @ [quote] @ effectiveRoomVersion mj @ [quote]
                      @ '' is not supported'')\<rparr>,
              [CallQueryRoomVersionCapabilities,
               CallMakeJoin server roomID (userID r) (map fst avail)])"
  | avail mj eb fmt err where "QueryRoomVersionCapabilities env = Inr avail"
      "MakeJoin env server roomID (userID r) (map fst avail) = Inr mj"
      "writeToBuilder env r (JoinEvent mj) roomID = Inr eb"
      "EventFormat env (effectiveRoomVersion mj) = Inr fmt"
      "Build env eb (evTime r) (ServerName (cfg r)) (KeyID (cfg r)) (PrivateKey (cfg r))
         (effectiveRoomVersion mj) = Inl err"
      "res = (Inr InternalServerError,
              [CallQueryRoomVersionCapabilities,
               CallMakeJoin server roomID (userID r) (map fst avail),
               CallBuild eb (evTime r) (ServerName (cfg r)) (KeyID (cfg r))
                 (PrivateKey (cfg r)) (effectiveRoomVersion mj),
               LogError (Some err) ''respMakeJoin.JoinEvent.Build failed''])"
  | avail mj eb fmt ev err where "QueryRoomVersionCapabilities env = Inr avail"
      "MakeJoin env server roomID (userID r) (map fst avail) = Inr mj"
      "writeToBuilder env r (JoinEvent mj) roomID = Inr eb"
      "EventFormat env (effectiveRoomVersion mj) = Inr fmt"
      "Build env eb (evTime r) (ServerName (cfg r)) (KeyID (cfg r)) (PrivateKey (cfg r))
         (effectiveRoomVersion mj) = Inr ev"
      "SendJoin env server ev (effectiveRoomVersion mj) = Inl err"
      "res = (Inl err,
              [CallQueryRoomVersionCapabilities,
               CallMakeJoin server roomID (userID r) (map fst avail),
               CallBuild eb (evTime r) (ServerName (cfg r)) (KeyID (cfg r))
                 (PrivateKey (cfg r)) (effectiveRoomVersion mj),
               CallSendJoin server ev (effectiveRoomVersion mj)])"
  | avail mj eb fmt ev sj err where "QueryRoomVersionCapabilities env = Inr avail"
      "MakeJoin env server roomID (userID r) (map fst avail) = Inr mj"
      "writeToBuilder env r (JoinEvent mj) roomID = Inr eb"
      "EventFormat env (effectiveRoomVersion mj) = Inr fmt"
      "Build env eb (evTime r) (ServerName (cfg r)) (KeyID (cfg r)) (PrivateKey (cfg r))
         (effectiveRoomVersion mj) = Inr ev"
      "SendJoin env server ev (effectiveRoomVersion mj) = Inr sj"
      "Check env sj ev = Some err"
      "res = (Inl err,
              [CallQueryRoomVersionCapabilities,
               CallMakeJoin server roomID (userID r) (map fst avail),
               CallBuild eb (evTime r) (ServerName (cfg r)) (KeyID (cfg r))
                 (PrivateKey (cfg r)) (effectiveRoomVersion mj),
               CallSendJoin server ev (effectiveRoomVersion mj),
               CallCheck sj ev])"
  | avail mj eb fmt ev sj err where "QueryRoomVersionCapabilities env = Inr avail"
      "MakeJoin env server roomID (userID r) (map fst avail) = Inr mj"
      "writeToBuilder env r (JoinEvent mj) roomID = Inr eb"
      "EventFormat env (effectiveRoomVersion mj) = Inr fmt"
      "Build env eb (evTime r) (ServerName (cfg r)) (KeyID (cfg r)) (PrivateKey (cfg r))
         (effectiveRoomVersion mj) = Inr ev"
      "SendJoin env server ev (effectiveRoomVersion mj) = Inr sj"
      "Check env sj ev = None"
      "SendEventWithState env (RespState sj) (Headered ev (effectiveRoomVersion mj)) = Some err"
      "res = (Inr InternalServerError,
              [CallQueryRoomVersionCapabilities,
               CallMakeJoin server roomID (userID r) (map fst avail),
               CallBuild eb (evTime r) (ServerName (cfg r)) (KeyID (cfg r))
                 (PrivateKey (cfg r)) (effectiveRoomVersion mj),
               CallSendJoin server ev (effectiveRoomVersion mj),
               CallCheck sj ev,
               CallSendEventWithState (RespState sj) (Headered ev (effectiveRoomVersion mj)),
               LogError (Some err) ''gomatrixserverlib.RespState failed''])"
  | avail mj eb fmt ev sj where "QueryRoomVersionCapabilities env = Inr avail"
      "MakeJoin env server roomID (userID r) (map fst avail) = Inr mj"
      "writeToBuilder env r (JoinEvent mj) roomID = Inr eb"
      "EventFormat env (effectiveRoomVersion mj) = Inr fmt"
      "Build env eb (evTime r) (ServerName (cfg r)) (KeyID (cfg r)) (PrivateKey (cfg r))
         (effectiveRoomVersion mj) = Inr ev"
      "SendJoin env server ev (effectiveRoomVersion mj) = Inr sj"
      "Check env sj ev = None"
      "SendEventWithState env (RespState sj) (Headered ev (effectiveRoomVersion mj)) = None"
      "res = (Inr \<lparr>Code = 200, JSON = RoomIDBody roomID\<rparr>,
              [CallQueryRoomVersionCapabilities,
               CallMakeJoin server roomID (userID r) (map fst avail),
               CallBuild eb (evTime r) (ServerName (cfg r)) (KeyID (cfg r))
                 (PrivateKey (cfg r)) (effectiveRoomVersion mj),
               CallSendJoin server ev (effectiveRoomVersion mj),
               CallCheck sj ev,
               CallSendEventWithState (RespState sj) (Headered ev (effectiveRoomVersion mj))])"
proof (cases "QueryRoomVersionCapabilities env")
  case (Inl err)
  then have "res = (Inl err, [CallQueryRoomVersionCapabilities])"
    by (simp add: res_def joinRoomUsingServer_def)
  with Inl show ?thesis by (rule that(1))
next
  case q: (Inr avail)
  show ?thesis
  proof (cases "MakeJoin env server roomID (userID r) (map fst avail)")
    case (Inl err)
    with q have "res = (Inl err, [CallQueryRoomVersionCapabilities,
                        CallMakeJoin server roomID (userID r) (map fst avail)])"
      by (simp add: res_def joinRoomUsingServer_def)
    with q Inl show ?thesis by (rule that(2))
  next
    case m: (Inr mj)
    show ?thesis
    proof (cases "writeToBuilder env r (JoinEvent mj) roomID")
      case (Inl err)
      with q m have "res = (Inl err, [CallQueryRoomVersionCapabilities,
                        CallMakeJoin server roomID (userID r) (map fst avail)])"
        by (simp add: res_def joinRoomUsingServer_def)
      with q m Inl show ?thesis by (rule that(3))
    next
      case w: (Inr eb)
      show ?thesis
      proof (cases "EventFormat env (effectiveRoomVersion mj)")
        case (Inl err)
        with q m w show ?thesis
          by (intro that(4) [of avail mj eb err])
             (simp_all add: res_def joinRoomUsingServer_def Let_def effectiveRoomVersion_def [symmetric])
      next
        case f: (Inr fmt)
        show ?thesis
        proof (cases "Build env eb (evTime r) (ServerName (cfg r)) (KeyID (cfg r))
            (PrivateKey (cfg r)) (effectiveRoomVersion mj)")
          case (Inl err)
          with q m w f show ?thesis
            by (intro that(5) [of avail mj eb fmt err])
               (simp_all add: res_def joinRoomUsingServer_def Let_def effectiveRoomVersion_def [symmetric])
        next
          case b: (Inr ev)
          show ?thesis
          proof (cases "SendJoin env server ev (effectiveRoomVersion mj)")
            case (Inl err)
            with q m w f b show ?thesis
              by (intro that(6) [of avail mj eb fmt ev err])
                 (simp_all add: res_def joinRoomUsingServer_def Let_def effectiveRoomVersion_def [symmetric])
          next
            case s: (Inr sj)
            show ?thesis
            proof (cases "Check env sj ev")
              case (Some err)
              with q m w f b s show ?thesis
                by (intro that(7) [of avail mj eb fmt ev sj err])
                   (simp_all add: res_def joinRoomUsingServer_def Let_def effectiveRoomVersion_def [symmetric])
            next
              case c: None
              show ?thesis
              proof (cases "SendEventWithState env (RespState sj)
                  (Headered ev (effectiveRoomVersion mj))")
                case (Some err)
                with q m w f b s c show ?thesis
                  by (intro that(8) [of avail mj eb fmt ev sj err])
                     (simp_all add: res_def joinRoomUsingServer_def Let_def effectiveRoomVersion_def [symmetric])
              next
                case None
                with q m w f b s c show ?thesis
                  by (intro that(9) [of avail mj eb fmt ev sj])
                     (simp_all add: res_def joinRoomUsingServer_def Let_def effectiveRoomVersion_def [symmetric])
              qed
            qed
          qed
        qed
      qed
    qed
  qed
qed

subsection \<open>What the builder holds, and what the loop does\<close>

lemma writeToBuilder_fields:
  "writeToBuilder env r template roomID = Inr eb \<Longrightarrow> joinFields env r roomID eb"
  by (auto simp: writeToBuilder_def joinFields_def SetUnsignedEmptyStruct_def Let_def
      split: sum.splits)

lemma joinRoomUsingServer_code:
  "fst (joinRoomUsingServer env r roomID server) = Inr response \<Longrightarrow>
   Code response = 200 \<or> Code response = 400 \<or> Code response = 500"
  by (cases rule: joinRoomUsingServer_cases [of env r roomID server])
     (auto simp: InternalServerError_def)

lemma joinRoomUsingServer_federated:
  "c \<in> set (snd (joinRoomUsingServer env r roomID server)) \<Longrightarrow>
   finalisedBuilder c = Some eb \<Longrightarrow> joinFields env r roomID eb"
  by (cases rule: joinRoomUsingServer_cases [of env r roomID server])
     (auto dest: writeToBuilder_fields)

lemma attemptError_Some:
  "attemptError env r roomID server = Some err \<longleftrightarrow>
   fst (joinRoomUsingServer env r roomID server) = Inl err"
  by (simp add: attemptError_def split: sum.splits)

lemma attemptError_None:
  "attemptError env r roomID server = None \<longleftrightarrow>
   (\<exists>response. fst (joinRoomUsingServer env r roomID server) = Inr response)"
  by (simp add: attemptError_def split: sum.splits)

lemma failedAttempts_Cons:
  "failedAttempts env r roomID (s # ss) =
     snd (joinRoomUsingServer env r roomID s)
     @ [LogWarn (attemptError env r roomID s) s ''Failed to join room using server'']
     @ failedAttempts env r roomID ss"
  by (simp add: failedAttempts_def)

lemma failedAttempts_Nil: "failedAttempts env r roomID [] = []"
  by (simp add: failedAttempts_def)

lemma tryServers_success:
  assumes "\<forall>s\<in>set pre. attemptError env r roomID s \<noteq> None"
      and "fst (joinRoomUsingServer env r roomID server) = Inr response"
  shows "tryServers env r roomID (pre @ server # post) lastErr =
           (response, failedAttempts env r roomID pre
                      @ snd (joinRoomUsingServer env r roomID server))"
  using assms(1)
proof (induction pre arbitrary: lastErr)
  case Nil
  obtain t where "joinRoomUsingServer env r roomID server = (Inr response, t)"
    using assms(2) by (cases "joinRoomUsingServer env r roomID server") auto
  then show ?case by (simp add: failedAttempts_Nil)
next
  case (Cons s pre)
  then obtain err where e: "attemptError env r roomID s = Some err" by auto
  then obtain t where t: "joinRoomUsingServer env r roomID s = (Inl err, t)"
    by (cases "joinRoomUsingServer env r roomID s") (auto simp: attemptError_Some)
  have "tryServers env r roomID (pre @ server # post) (Some err) =
          (response, failedAttempts env r roomID pre
                     @ snd (joinRoomUsingServer env r roomID server))"
    using Cons by simp
  with t e show ?case by (simp add: failedAttempts_Cons)
qed

lemma tryServers_all_fail:
  assumes "\<forall>s\<in>set servers. attemptError env r roomID s \<noteq> None"
  shows "tryServers env r roomID servers lastErr =
           (InternalServerError,
            failedAttempts env r roomID servers
            @ [LogError (if servers = [] then lastErr
                         else attemptError env r roomID (last servers))
                 ''failed to join through any server''])"
  using assms
proof (induction servers arbitrary: lastErr)
  case Nil
  show ?case by (simp add: failedAttempts_Nil)
next
  case (Cons s servers)
  then obtain err where e: "attemptError env r roomID s = Some err" by auto
  then obtain t where t: "joinRoomUsingServer env r roomID s = (Inl err, t)"
    by (cases "joinRoomUsingServer env r roomID s") (auto simp: attemptError_Some)
  have "tryServers env r roomID servers (Some err) =
           (InternalServerError,
            failedAttempts env r roomID servers
            @ [LogError (if servers = [] then Some err
                         else attemptError env r roomID (last servers))
                 ''failed to join through any server''])"
    using Cons by simp
  with t e show ?case by (simp add: failedAttempts_Cons)
qed

lemma tryServers_fields:
  "c \<in> set (snd (tryServers env r roomID servers lastErr)) \<Longrightarrow>
   finalisedBuilder c = Some eb \<Longrightarrow> joinFields env r roomID eb"
proof (induction servers arbitrary: lastErr)
  case Nil
  then show ?case by auto
next
  case (Cons s servers)
  obtain res t where t: "joinRoomUsingServer env r roomID s = (res, t)"
    by (cases "joinRoomUsingServer env r roomID s")
  show ?case
  proof (cases res)
    case (Inl err)
    obtain resp t' where t': "tryServers env r roomID servers (Some err) = (resp, t')"
      by (cases "tryServers env r roomID servers (Some err)")
    from Cons.prems(1) t Inl t' have "c \<in> set t \<or> c \<in> set t' \<or> (\<exists>e m. c = LogWarn e s m)"
      by auto
    then show ?thesis
    proof (elim disjE)
      assume "c \<in> set t"
      with t have "c \<in> set (snd (joinRoomUsingServer env r roomID s))" by simp
      then show ?thesis using Cons.prems(2) by (rule joinRoomUsingServer_federated)
    next
      assume "c \<in> set t'"
      with t' have "c \<in> set (snd (tryServers env r roomID servers (Some err)))" by simp
      then show ?thesis using Cons.prems(2) by (rule Cons.IH)
    next
      assume "\<exists>e m. c = LogWarn e s m"
      with Cons.prems(2) show ?thesis by auto
    qed
  next
    case (Inr resp)
    with Cons.prems(1) t have "c \<in> set (snd (joinRoomUsingServer env r roomID s))" by simp
    then show ?thesis using Cons.prems(2) by (rule joinRoomUsingServer_federated)
  qed
qed

lemma tryServers_code:
  "Code (fst (tryServers env r roomID servers lastErr)) \<noteq> 404"
proof (induction servers arbitrary: lastErr)
  case Nil
  show ?case by (simp add: InternalServerError_def)
next
  case (Cons s servers)
  obtain res t where t: "joinRoomUsingServer env r roomID s = (res, t)"
    by (cases "joinRoomUsingServer env r roomID s")
  show ?case
  proof (cases res)
    case (Inl err)
    with t Cons.IH [of "Some err"] show ?thesis by (simp add: split_beta)
  next
    case (Inr resp)
    with t have "fst (joinRoomUsingServer env r roomID s) = Inr resp" by simp
    from joinRoomUsingServer_code [OF this] t Inr show ?thesis by auto
  qed
qed

subsection \<open>Evaluating the sample deployment\<close>

lemmas sample_defs =
  joinRoomUsingServer_def writeToBuilder_def sampleEnv_def sampleReq_def
  sampleConfig_def SetUnsignedEmptyStruct_def RoomVersionV1_def sampleTemplate_def
  zeroEventBuilder_def Let_def

subsection \<open>Trust verification guards publication\<close>

text \<open>
  C3. In a handshake with one server, when the check of the send-join response against
  the key ring fails, the handshake returns that error right after the check, which is
  its last call, and has made no call to the producer: neither
  \<^verbatim>\<open>SendEventWithState\<close> nor \<^verbatim>\<open>SendEvents\<close>.
\<close>

theorem check_failure_not_published:
  assumes "CallCheck respSendJoin event \<in> set (snd (joinRoomUsingServer env r roomID server))"
      and "Check env respSendJoin event = Some err"
  shows "fst (joinRoomUsingServer env r roomID server) = Inl err
         \<and> (\<forall>st h. CallSendEventWithState st h
                     \<notin> set (snd (joinRoomUsingServer env r roomID server)))
         \<and> (\<forall>hs origin. CallSendEvents hs origin
                     \<notin> set (snd (joinRoomUsingServer env r roomID server)))
         \<and> last (snd (joinRoomUsingServer env r roomID server))
             = CallCheck respSendJoin event"
proof (cases rule: joinRoomUsingServer_cases [of env r roomID server])
  case (CheckFailed avail mj eb fmt ev sj err')
  with assms have "respSendJoin = sj" and "event = ev" by auto
  with assms(2) CheckFailed show ?thesis by simp
qed (use assms in auto)

theorem check_failure_not_published_witness:
  "CallCheck \<lparr>RespState = StateSnapshot ''forged''\<rparr>
       (Event ''@alice:local.example joins !room:b.example'')
     \<in> set (snd (joinRoomUsingServer sampleEnv sampleReq ''!room:b.example'' ''forged.example''))
   \<and> Check sampleEnv \<lparr>RespState = StateSnapshot ''forged''\<rparr>
       (Event ''@alice:local.example joins !room:b.example'') = Some (OtherError ''bad signature'')
   \<and> fst (joinRoomUsingServer sampleEnv sampleReq ''!room:b.example'' ''forged.example'')
       = Inl (OtherError ''bad signature'')
   \<and> (\<forall>st h. CallSendEventWithState st h
         \<notin> set (snd (joinRoomUsingServer sampleEnv sampleReq ''!room:b.example'' ''forged.example'')))
   \<and> (\<forall>hs origin. CallSendEvents hs origin
         \<notin> set (snd (joinRoomUsingServer sampleEnv sampleReq ''!room:b.example'' ''forged.example'')))
   \<and> last (snd (joinRoomUsingServer sampleEnv sampleReq ''!room:b.example'' ''forged.example''))
       = CallCheck \<lparr>RespState = StateSnapshot ''forged''\<rparr>
           (Event ''@alice:local.example joins !room:b.example'')"
proof -
  have a: "CallCheck \<lparr>RespState = StateSnapshot ''forged''\<rparr>
       (Event ''@alice:local.example joins !room:b.example'')
     \<in> set (snd (joinRoomUsingServer sampleEnv sampleReq ''!room:b.example'' ''forged.example''))"
    by (simp add: sample_defs)
  have b: "Check sampleEnv \<lparr>RespState = StateSnapshot ''forged''\<rparr>
       (Event ''@alice:local.example joins !room:b.example'') = Some (OtherError ''bad signature'')"
    by (simp add: sampleEnv_def)
  from check_failure_not_published [OF a b] a b show ?thesis by blast
qed

subsection \<open>An unsupported room version\<close>

text \<open>
  C1, as the code has it. When the version of the make-join response has no known
  event format, the handshake returns a response, not an error: status 400 with
  \<^verbatim>\<open>UnsupportedRoomVersion\<close>. The loop over the candidates returns that response
  as the outcome of the request, after the failed attempts before it, and tries none
  of the servers after it.
\<close>

theorem unsupported_version_ends_request:
  assumes "QueryRoomVersionCapabilities env = Inr avail"
      and "MakeJoin env server roomID (userID r) (map fst avail) = Inr mj"
      and "writeToBuilder env r (JoinEvent mj) roomID = Inr eb"
      and "EventFormat env (effectiveRoomVersion mj) = Inl err"
      and "\<forall>s\<in>set pre. attemptError env r roomID s \<noteq> None"
  shows "joinRoomUsingServer env r roomID server =
           (Inr \<lparr>Code = 400,
                 JSON = UnsupportedRoomVersion
                   (''Room version '' @ [quote] @ effectiveRoomVersion mj @ [quote]
                    @ '' is not supported'')\<rparr>,
            [CallQueryRoomVersionCapabilities,
             CallMakeJoin server roomID (userID r) (map fst avail)])
         \<and> tryServers env r roomID (pre @ server # post) lastErr =
           (\<lparr>Code = 400,
             JSON = UnsupportedRoomVersion
               (''Room version '' @ [quote] @ effectiveRoomVersion mj @ [quote]
                @ '' is not supported'')\<rparr>,
            failedAttempts env r roomID pre
            @ [CallQueryRoomVersionCapabilities,
               CallMakeJoin server roomID (userID r) (map fst avail)])"
proof -
  have one: "joinRoomUsingServer env r roomID server =
           (Inr \<lparr>Code = 400,
                 JSON = UnsupportedRoomVersion
                   (''Room version '' @ [quote] @ effectiveRoomVersion mj @ [quote]
                    @ '' is not supported'')\<rparr>,
            [CallQueryRoomVersionCapabilities,
             CallMakeJoin server roomID (userID r) (map fst avail)])"
    using assms(1-4)
    by (cases rule: joinRoomUsingServer_cases [of env r roomID server]) auto
  then have "fst (joinRoomUsingServer env r roomID server) =
           Inr \<lparr>Code = 400,
                 JSON = UnsupportedRoomVersion
                   (''Room version '' @ [quote] @ effectiveRoomVersion mj @ [quote]
                    @ '' is not supported'')\<rparr>"
    by simp
  from tryServers_success [OF assms(5) this, of post lastErr] one show ?thesis by simp
qed

theorem unsupported_version_ends_request_witness:
  "QueryRoomVersionCapabilities sampleEnv = Inr [(''2'', ''stable'')]
   \<and> MakeJoin sampleEnv ''new.example'' ''!room:b.example'' (userID sampleReq)
        (map fst [(''2'', ''stable'')])
      = Inr \<lparr>JoinEvent = sampleTemplate, RoomVersion = ''99''\<rparr>
   \<and> writeToBuilder sampleEnv sampleReq sampleTemplate ''!room:b.example''
      = Inr (sampleTemplate\<lparr>Sender := ''@alice:local.example'', RoomID := ''!room:b.example'',
               Type := ''m.room.member'', StateKey := Some ''@alice:local.example'',
               Redacts := [], Content := ''{join}'', Unsigned := ''{}''\<rparr>)
   \<and> EventFormat sampleEnv ''99'' = Inl (OtherError ''unsupported room version'')
   \<and> attemptError sampleEnv sampleReq ''!room:b.example'' ''down.example''
      = Some (OtherError ''connection refused'')
   \<and> tryServers sampleEnv sampleReq ''!room:b.example''
        ([''down.example''] @ ''new.example'' # [''b.example'']) None =
        (\<lparr>Code = 400,
          JSON = UnsupportedRoomVersion (''Room version '' @ [quote] @ ''99'' @ [quote]
                   @ '' is not supported'')\<rparr>,
         [CallQueryRoomVersionCapabilities,
          CallMakeJoin ''down.example'' ''!room:b.example'' ''@alice:local.example'' [''2''],
          LogWarn (Some (OtherError ''connection refused'')) ''down.example''
            ''Failed to join room using server'',
          CallQueryRoomVersionCapabilities,
          CallMakeJoin ''new.example'' ''!room:b.example'' ''@alice:local.example'' [''2'']])"
proof -
  have q: "QueryRoomVersionCapabilities sampleEnv = Inr [(''2'', ''stable'')]"
    by (simp add: sampleEnv_def)
  have m: "MakeJoin sampleEnv ''new.example'' ''!room:b.example'' (userID sampleReq)
        (map fst [(''2'', ''stable'')])
      = Inr \<lparr>JoinEvent = sampleTemplate, RoomVersion = ''99''\<rparr>"
    by (simp add: sampleEnv_def)
  have w: "writeToBuilder sampleEnv sampleReq
        (JoinEvent \<lparr>JoinEvent = sampleTemplate, RoomVersion = ''99''\<rparr>) ''!room:b.example''
      = Inr (sampleTemplate\<lparr>Sender := ''@alice:local.example'', RoomID := ''!room:b.example'',
               Type := ''m.room.member'', StateKey := Some ''@alice:local.example'',
               Redacts := [], Content := ''{join}'', Unsigned := ''{}''\<rparr>)"
    by (simp add: sample_defs)
  have f: "EventFormat sampleEnv
        (effectiveRoomVersion \<lparr>JoinEvent = sampleTemplate, RoomVersion = ''99''\<rparr>)
      = Inl (OtherError ''unsupported room version'')"
    by (simp add: sampleEnv_def effectiveRoomVersion_def)
  have d: "attemptError sampleEnv sampleReq ''!room:b.example'' ''down.example''
      = Some (OtherError ''connection refused'')"
    by (simp add: attemptError_def sample_defs)
  then have p: "\<forall>s\<in>set [''down.example''].
      attemptError sampleEnv sampleReq ''!room:b.example'' s \<noteq> None"
    by simp
  have fa: "failedAttempts sampleEnv sampleReq ''!room:b.example'' [''down.example''] =
         [CallQueryRoomVersionCapabilities,
          CallMakeJoin ''down.example'' ''!room:b.example'' ''@alice:local.example'' [''2''],
          LogWarn (Some (OtherError ''connection refused'')) ''down.example''
            ''Failed to join room using server'']"
    by (simp add: failedAttempts_def attemptError_def sample_defs)
  from unsupported_version_ends_request [OF q m w f p, of "[''b.example'']" None] q m w f d fa
  show ?thesis by (simp add: effectiveRoomVersion_def sampleReq_def)
qed

text \<open>
  C1 as stated fails: with the candidates \<open>new.example\<close>, whose make-join names the
  unknown version 99, and then \<open>b.example\<close>, the request ends with status 400 and
  \<open>b.example\<close> is never asked.
\<close>

theorem unsupported_version_counterexample:
  "MakeJoin sampleEnv ''new.example'' ''!room:b.example'' ''@alice:local.example'' [''2'']
     = Inr \<lparr>JoinEvent = sampleTemplate, RoomVersion = ''99''\<rparr>
   \<and> EventFormat sampleEnv ''99'' = Inl (OtherError ''unsupported room version'')
   \<and> Code (fst (joinRoomUsingServers sampleEnv sampleReq ''!room:b.example''
            [''new.example'', ''b.example''])) = 400
   \<and> CallMakeJoin ''b.example'' ''!room:b.example'' ''@alice:local.example'' [''2'']
       \<notin> set (snd (joinRoomUsingServers sampleEnv sampleReq ''!room:b.example''
                     [''new.example'', ''b.example'']))
   \<and> fst (joinRoomUsingServer sampleEnv sampleReq ''!room:b.example'' ''b.example'')
       = Inr \<lparr>Code = 200, JSON = RoomIDBody ''!room:b.example''\<rparr>"
  by (simp add: joinRoomUsingServers_def sample_defs)

subsection \<open>The room version when make-join names none\<close>

text \<open>
  C7, as the code has it. When the make-join response names no room version, every
  call of the handshake that builds, sends or publishes the event uses the fixed
  version \<open>RoomVersionV1\<close>, whatever versions the local server supports; and when that
  version's event format is known, the event is built with it.
\<close>

theorem omitted_version_is_v1:
  assumes "QueryRoomVersionCapabilities env = Inr avail"
      and "MakeJoin env server roomID (userID r) (map fst avail) = Inr mj"
      and "RoomVersion mj = []"
  shows "(\<forall>c\<in>set (snd (joinRoomUsingServer env r roomID server)).
            \<forall>v. federatedVersion c = Some v \<longrightarrow> v = RoomVersionV1)
         \<and> (\<forall>eb fmt. writeToBuilder env r (JoinEvent mj) roomID = Inr eb
               \<longrightarrow> EventFormat env RoomVersionV1 = Inr fmt
               \<longrightarrow> CallBuild eb (evTime r) (ServerName (cfg r)) (KeyID (cfg r))
                     (PrivateKey (cfg r)) RoomVersionV1
                   \<in> set (snd (joinRoomUsingServer env r roomID server)))"
proof -
  have v: "effectiveRoomVersion mj = RoomVersionV1"
    using assms(3) by (simp add: effectiveRoomVersion_def)
  show ?thesis
    using assms(1,2) v
    by (cases rule: joinRoomUsingServer_cases [of env r roomID server]) auto
qed

theorem omitted_version_is_v1_witness:
  "QueryRoomVersionCapabilities sampleEnv = Inr [(''2'', ''stable'')]
   \<and> MakeJoin sampleEnv ''b.example'' ''!room:b.example'' (userID sampleReq)
        (map fst [(''2'', ''stable'')])
      = Inr \<lparr>JoinEvent = sampleTemplate, RoomVersion = []\<rparr>
   \<and> CallSendJoin ''b.example'' (Event ''@alice:local.example joins !room:b.example'') ''1''
      \<in> set (snd (joinRoomUsingServer sampleEnv sampleReq ''!room:b.example'' ''b.example''))
   \<and> federatedVersion
        (CallSendJoin ''b.example'' (Event ''@alice:local.example joins !room:b.example'') ''1'')
      = Some RoomVersionV1"
proof -
  have q: "QueryRoomVersionCapabilities sampleEnv = Inr [(''2'', ''stable'')]"
    by (simp add: sampleEnv_def)
  have m: "MakeJoin sampleEnv ''b.example'' ''!room:b.example'' (userID sampleReq)
        (map fst [(''2'', ''stable'')])
      = Inr \<lparr>JoinEvent = sampleTemplate, RoomVersion = []\<rparr>"
    by (simp add: sampleEnv_def)
  have e: "RoomVersion \<lparr>JoinEvent = sampleTemplate, RoomVersion = []\<rparr> = []"
    by simp
  have c: "CallSendJoin ''b.example'' (Event ''@alice:local.example joins !room:b.example'') ''1''
      \<in> set (snd (joinRoomUsingServer sampleEnv sampleReq ''!room:b.example'' ''b.example''))"
    by (simp add: sample_defs)
  from omitted_version_is_v1 [OF q m e] c
  have "federatedVersion
        (CallSendJoin ''b.example'' (Event ''@alice:local.example joins !room:b.example'') ''1'')
      = Some RoomVersionV1"
    by auto
  with q m c show ?thesis by simp
qed

text \<open>
  C7 as stated fails: the local server supports version 2 only, the make-join
  response names no version, and the event is sent and published with version 1,
  which is not among the supported versions.
\<close>

theorem omitted_version_counterexample:
  "QueryRoomVersionCapabilities sampleEnv = Inr [(''2'', ''stable'')]
   \<and> MakeJoin sampleEnv ''b.example'' ''!room:b.example'' ''@alice:local.example'' [''2'']
       = Inr \<lparr>JoinEvent = sampleTemplate, RoomVersion = []\<rparr>
   \<and> snd (joinRoomUsingServer sampleEnv sampleReq ''!room:b.example'' ''b.example'') =
       [CallQueryRoomVersionCapabilities,
        CallMakeJoin ''b.example'' ''!room:b.example'' ''@alice:local.example'' [''2''],
        CallBuild
          \<lparr>Sender = ''@alice:local.example'', RoomID = ''!room:b.example'',
           Type = ''m.room.member'', StateKey = Some ''@alice:local.example'',
           PrevEvents = [], AuthEvents = [], Redacts = [], Depth = 7, Signatures = [],
           Content = ''{join}'', Unsigned = ''{}''\<rparr>
          0 ''local.example'' ''ed25519:1'' ''k'' ''1'',
        CallSendJoin ''b.example'' (Event ''@alice:local.example joins !room:b.example'') ''1'',
        CallCheck \<lparr>RespState = StateSnapshot ''state''\<rparr>
          (Event ''@alice:local.example joins !room:b.example''),
        CallSendEventWithState (StateSnapshot ''state'')
          (Headered (Event ''@alice:local.example joins !room:b.example'') ''1'')]
   \<and> ''1'' \<notin> set (map fst [(''2'', ''stable'')])"
  by (simp add: sample_defs)

subsection \<open>The loop over the candidate servers\<close>

text \<open>
  C6. In the loop over the candidates, when the attempts on the servers before one
  all return errors and the attempt on that one returns a response, this response is
  the outcome and the calls are those of these attempts only: the result is the same
  as if the list ended there, so no later candidate is contacted. When the list is not
  empty and every attempt returns an error, the outcome is the internal server error
  and the last log entry carries the error of the last attempt.
\<close>

theorem first_success_wins:
  "((\<forall>s\<in>set pre. attemptError env r roomID s \<noteq> None)
     \<longrightarrow> fst (joinRoomUsingServer env r roomID server) = Inr response
     \<longrightarrow> tryServers env r roomID (pre @ server # post) lastErr =
           (response, failedAttempts env r roomID pre
                      @ snd (joinRoomUsingServer env r roomID server))
         \<and> tryServers env r roomID (pre @ server # post) lastErr =
           tryServers env r roomID (pre @ [server]) lastErr)
   \<and> (servers \<noteq> [] \<longrightarrow> (\<forall>s\<in>set servers. attemptError env r roomID s \<noteq> None)
     \<longrightarrow> fst (tryServers env r roomID servers lastErr) = InternalServerError
         \<and> snd (tryServers env r roomID servers lastErr) =
             failedAttempts env r roomID servers
             @ [LogError (attemptError env r roomID (last servers))
                  ''failed to join through any server''])"
proof (intro conjI impI)
  assume a: "\<forall>s\<in>set pre. attemptError env r roomID s \<noteq> None"
     and b: "fst (joinRoomUsingServer env r roomID server) = Inr response"
  show "tryServers env r roomID (pre @ server # post) lastErr =
           (response, failedAttempts env r roomID pre
                      @ snd (joinRoomUsingServer env r roomID server))"
    by (rule tryServers_success [OF a b])
  then show "tryServers env r roomID (pre @ server # post) lastErr =
           tryServers env r roomID (pre @ [server]) lastErr"
    using tryServers_success [OF a b, of "[]" lastErr] by simp
next
  assume a: "servers \<noteq> []" and b: "\<forall>s\<in>set servers. attemptError env r roomID s \<noteq> None"
  from tryServers_all_fail [OF b, of lastErr] a
  show "fst (tryServers env r roomID servers lastErr) = InternalServerError"
    and "snd (tryServers env r roomID servers lastErr) =
             failedAttempts env r roomID servers
             @ [LogError (attemptError env r roomID (last servers))
                  ''failed to join through any server'']"
    by simp_all
qed

theorem first_success_wins_witness:
  "attemptError sampleEnv sampleReq ''!room:b.example'' ''down.example''
     = Some (OtherError ''connection refused'')
   \<and> attemptError sampleEnv sampleReq ''!room:b.example'' ''forged.example''
     = Some (OtherError ''bad signature'')
   \<and> fst (joinRoomUsingServer sampleEnv sampleReq ''!room:b.example'' ''b.example'')
     = Inr \<lparr>Code = 200, JSON = RoomIDBody ''!room:b.example''\<rparr>
   \<and> fst (tryServers sampleEnv sampleReq ''!room:b.example''
        ([''down.example''] @ ''b.example'' # [''c.example'']) None)
     = \<lparr>Code = 200, JSON = RoomIDBody ''!room:b.example''\<rparr>
   \<and> tryServers sampleEnv sampleReq ''!room:b.example''
        ([''down.example''] @ ''b.example'' # [''c.example'']) None
     = tryServers sampleEnv sampleReq ''!room:b.example'' ([''down.example''] @ [''b.example'']) None
   \<and> [''down.example'', ''forged.example''] \<noteq> []
   \<and> fst (tryServers sampleEnv sampleReq ''!room:b.example''
        [''down.example'', ''forged.example''] None) = InternalServerError
   \<and> last (snd (tryServers sampleEnv sampleReq ''!room:b.example''
        [''down.example'', ''forged.example''] None))
     = LogError (Some (OtherError ''bad signature'')) ''failed to join through any server''"
proof -
  have d: "attemptError sampleEnv sampleReq ''!room:b.example'' ''down.example''
     = Some (OtherError ''connection refused'')"
    by (simp add: attemptError_def sample_defs)
  have f: "attemptError sampleEnv sampleReq ''!room:b.example'' ''forged.example''
     = Some (OtherError ''bad signature'')"
    by (simp add: attemptError_def sample_defs)
  have b: "fst (joinRoomUsingServer sampleEnv sampleReq ''!room:b.example'' ''b.example'')
     = Inr \<lparr>Code = 200, JSON = RoomIDBody ''!room:b.example''\<rparr>"
    by (simp add: sample_defs)
  have p1: "\<forall>s\<in>set [''down.example''].
      attemptError sampleEnv sampleReq ''!room:b.example'' s \<noteq> None"
    using d by simp
  have p2: "\<forall>s\<in>set [''down.example'', ''forged.example''].
      attemptError sampleEnv sampleReq ''!room:b.example'' s \<noteq> None"
    using d f by simp
  have n: "[''down.example'', ''forged.example''] \<noteq> []" by simp
  note inst = first_success_wins [of "[''down.example'']" sampleEnv sampleReq
      "''!room:b.example''" "''b.example''"
      "\<lparr>Code = 200, JSON = RoomIDBody ''!room:b.example''\<rparr>" "[''c.example'']" None
      "[''down.example'', ''forged.example'']"]
  from inst p1 b have s1: "tryServers sampleEnv sampleReq ''!room:b.example''
        ([''down.example''] @ ''b.example'' # [''c.example'']) None
     = (\<lparr>Code = 200, JSON = RoomIDBody ''!room:b.example''\<rparr>,
        failedAttempts sampleEnv sampleReq ''!room:b.example'' [''down.example'']
        @ snd (joinRoomUsingServer sampleEnv sampleReq ''!room:b.example'' ''b.example''))"
    and s2: "tryServers sampleEnv sampleReq ''!room:b.example''
        ([''down.example''] @ ''b.example'' # [''c.example'']) None
     = tryServers sampleEnv sampleReq ''!room:b.example'' ([''down.example''] @ [''b.example'']) None"
    by blast+
  from inst p2 n have s3: "fst (tryServers sampleEnv sampleReq ''!room:b.example''
        [''down.example'', ''forged.example''] None) = InternalServerError"
    and s4: "snd (tryServers sampleEnv sampleReq ''!room:b.example''
        [''down.example'', ''forged.example''] None) =
        failedAttempts sampleEnv sampleReq ''!room:b.example'' [''down.example'', ''forged.example'']
        @ [LogError (attemptError sampleEnv sampleReq ''!room:b.example''
                       (last [''down.example'', ''forged.example'']))
             ''failed to join through any server'']"
    by blast+
  from s4 f have s5: "last (snd (tryServers sampleEnv sampleReq ''!room:b.example''
        [''down.example'', ''forged.example''] None))
     = LogError (Some (OtherError ''bad signature'')) ''failed to join through any server''"
    by simp
  from s1 have s1': "fst (tryServers sampleEnv sampleReq ''!room:b.example''
        ([''down.example''] @ ''b.example'' # [''c.example'']) None)
     = \<lparr>Code = 200, JSON = RoomIDBody ''!room:b.example''\<rparr>"
    by simp
  show ?thesis
    using d f b s1' s2 n s3 s5 by blast
qed

subsection \<open>The outcomes of the local path\<close>

text \<open>
  \<^verbatim>\<open>joinRoomUsingServers\<close> ends in one of six ways: only the last one runs the
  loop over the candidate servers.
\<close>

lemma joinRoomUsingServers_cases [case_names BuilderFailed Published PublishFailed
    BuildEventFailed NoCandidates Federated]:
  fixes env r roomID servers
  defines "res \<equiv> joinRoomUsingServers env r roomID servers"
  obtains
    err where "writeToBuilder env r zeroEventBuilder roomID = Inl err"
      "res = (InternalServerError, [LogError (Some err) ''r.writeToBuilder failed''])"
  | eb event roomVersion where "writeToBuilder env r zeroEventBuilder roomID = Inr eb"
      "BuildEvent env eb (cfg r) (evTime r) = Inr (event, roomVersion)"
      "SendEvents env [Headered event roomVersion] (ServerName (cfg r)) = None"
      "res = (\<lparr>Code = 200, JSON = RoomIDBody roomID\<rparr>,
              [CallBuildEvent eb (cfg r) (evTime r),
               CallSendEvents [Headered event roomVersion] (ServerName (cfg r))])"
  | eb event roomVersion err where "writeToBuilder env r zeroEventBuilder roomID = Inr eb"
      "BuildEvent env eb (cfg r) (evTime r) = Inr (event, roomVersion)"
      "SendEvents env [Headered event roomVersion] (ServerName (cfg r)) = Some err"
      "res = (InternalServerError,
              [CallBuildEvent eb (cfg r) (evTime r),
               CallSendEvents [Headered event roomVersion] (ServerName (cfg r)),
               LogError (Some err) ''r.producer.SendEvents failed''])"
  | eb err where "writeToBuilder env r zeroEventBuilder roomID = Inr eb"
      "BuildEvent env eb (cfg r) (evTime r) = Inl err" "err \<noteq> ErrRoomNoExists"
      "res = (InternalServerError,
              [CallBuildEvent eb (cfg r) (evTime r),
               LogError (Some err) ''common.BuildEvent failed''])"
  | eb where "writeToBuilder env r zeroEventBuilder roomID = Inr eb"
      "BuildEvent env eb (cfg r) (evTime r) = Inl ErrRoomNoExists" "servers = []"
      "res = (\<lparr>Code = 404, JSON = NotFound ''No candidate servers found for room''\<rparr>,
              [CallBuildEvent eb (cfg r) (evTime r)])"
  | eb where "writeToBuilder env r zeroEventBuilder roomID = Inr eb"
      "BuildEvent env eb (cfg r) (evTime r) = Inl ErrRoomNoExists" "servers \<noteq> []"
      "res = (fst (tryServers env r roomID servers None),
              CallBuildEvent eb (cfg r) (evTime r)
              # snd (tryServers env r roomID servers None))"
proof (cases "writeToBuilder env r zeroEventBuilder roomID")
  case (Inl err)
  then show ?thesis
    by (intro that(1) [of err]) (simp_all add: res_def joinRoomUsingServers_def)
next
  case w: (Inr eb)
  show ?thesis
  proof (cases "BuildEvent env eb (cfg r) (evTime r)")
    case (Inr p)
    obtain event roomVersion where p: "p = (event, roomVersion)" by (cases p)
    show ?thesis
    proof (cases "SendEvents env [Headered event roomVersion] (ServerName (cfg r))")
      case None
      with w Inr p show ?thesis
        by (intro that(2) [of eb event roomVersion])
           (simp_all add: res_def joinRoomUsingServers_def Let_def)
    next
      case (Some err)
      with w Inr p show ?thesis
        by (intro that(3) [of eb event roomVersion err])
           (simp_all add: res_def joinRoomUsingServers_def Let_def)
    qed
  next
    case (Inl err)
    show ?thesis
    proof (cases "err = ErrRoomNoExists")
      case False
      with w Inl show ?thesis
        by (intro that(4) [of eb err])
           (simp_all add: res_def joinRoomUsingServers_def Let_def)
    next
      case True
      show ?thesis
      proof (cases "servers = []")
        case e: True
        with w Inl True show ?thesis
          by (intro that(5) [of eb])
             (simp_all add: res_def joinRoomUsingServers_def Let_def)
      next
        case e: False
        with w Inl True show ?thesis
          by (intro that(6) [of eb])
             (simp_all add: res_def joinRoomUsingServers_def Let_def split_beta)
      qed
    qed
  qed
qed

subsection \<open>The fields the joining server decides\<close>

text \<open>
  C8. Whatever template the builder starts from, \<^verbatim>\<open>writeToBuilder\<close> leaves it
  with the type \<open>m.room.member\<close>, the encoded content of the request, the empty
  object as unsigned section, the requesting user as sender and as state key, the
  target room and no redaction target. Every builder that a join finalises into an
  event, on the local path or in a handshake with any server, holds these fields;
  in particular its state key is its sender.
\<close>

theorem join_event_fields:
  "(\<forall>template eb. writeToBuilder env r template roomID = Inr eb
      \<longrightarrow> joinFields env r roomID eb)
   \<and> (\<forall>c\<in>set (snd (joinRoomUsingServers env r roomID servers)).
        \<forall>eb. finalisedBuilder c = Some eb
          \<longrightarrow> joinFields env r roomID eb \<and> StateKey eb = Some (Sender eb))"
proof (intro conjI allI ballI impI)
  fix template eb
  assume "writeToBuilder env r template roomID = Inr eb"
  then show "joinFields env r roomID eb" by (rule writeToBuilder_fields)
next
  fix c eb
  assume c: "c \<in> set (snd (joinRoomUsingServers env r roomID servers))"
     and f: "finalisedBuilder c = Some eb"
  have "joinFields env r roomID eb"
  proof (cases rule: joinRoomUsingServers_cases [of env r roomID servers])
    case (Federated eb0)
    with c have "c = CallBuildEvent eb0 (cfg r) (evTime r)
        \<or> c \<in> set (snd (tryServers env r roomID servers None))"
      by auto
    then show ?thesis
    proof
      assume "c = CallBuildEvent eb0 (cfg r) (evTime r)"
      with f Federated show ?thesis by (simp add: writeToBuilder_fields)
    next
      assume "c \<in> set (snd (tryServers env r roomID servers None))"
      then show ?thesis using f by (rule tryServers_fields)
    qed
  qed (use c f in \<open>auto dest: writeToBuilder_fields\<close>)
  then show "joinFields env r roomID eb" and "StateKey eb = Some (Sender eb)"
    by (simp_all add: joinFields_def)
qed

theorem join_event_fields_witness:
  "writeToBuilder sampleEnv sampleReq sampleTemplate ''!room:b.example''
     = Inr (sampleTemplate\<lparr>Sender := ''@alice:local.example'', RoomID := ''!room:b.example'',
              Type := ''m.room.member'', StateKey := Some ''@alice:local.example'',
              Redacts := [], Content := ''{join}'', Unsigned := ''{}''\<rparr>)
   \<and> Sender sampleTemplate = ''@mallory:evil.example''
   \<and> joinFields sampleEnv sampleReq ''!room:b.example''
       (sampleTemplate\<lparr>Sender := ''@alice:local.example'', RoomID := ''!room:b.example'',
              Type := ''m.room.member'', StateKey := Some ''@alice:local.example'',
              Redacts := [], Content := ''{join}'', Unsigned := ''{}''\<rparr>)
   \<and> CallBuild (sampleTemplate\<lparr>Sender := ''@alice:local.example'', RoomID := ''!room:b.example'',
              Type := ''m.room.member'', StateKey := Some ''@alice:local.example'',
              Redacts := [], Content := ''{join}'', Unsigned := ''{}''\<rparr>)
         0 ''local.example'' ''ed25519:1'' ''k'' ''1''
       \<in> set (snd (joinRoomUsingServers sampleEnv sampleReq ''!room:b.example''
                     [''down.example'', ''b.example'']))"
proof -
  have w: "writeToBuilder sampleEnv sampleReq sampleTemplate ''!room:b.example''
     = Inr (sampleTemplate\<lparr>Sender := ''@alice:local.example'', RoomID := ''!room:b.example'',
              Type := ''m.room.member'', StateKey := Some ''@alice:local.example'',
              Redacts := [], Content := ''{join}'', Unsigned := ''{}''\<rparr>)"
    by (simp add: sample_defs)
  have s: "Sender sampleTemplate = ''@mallory:evil.example''"
    by (simp add: sampleTemplate_def)
  have c: "CallBuild (sampleTemplate\<lparr>Sender := ''@alice:local.example'', RoomID := ''!room:b.example'',
              Type := ''m.room.member'', StateKey := Some ''@alice:local.example'',
              Redacts := [], Content := ''{join}'', Unsigned := ''{}''\<rparr>)
         0 ''local.example'' ''ed25519:1'' ''k'' ''1''
       \<in> set (snd (joinRoomUsingServers sampleEnv sampleReq ''!room:b.example''
                     [''down.example'', ''b.example'']))"
    by (simp add: joinRoomUsingServers_def sample_defs)
  from join_event_fields [of sampleEnv sampleReq "''!room:b.example''"
      "[''down.example'', ''b.example'']"] w
  have "joinFields sampleEnv sampleReq ''!room:b.example''
       (sampleTemplate\<lparr>Sender := ''@alice:local.example'', RoomID := ''!room:b.example'',
              Type := ''m.room.member'', StateKey := Some ''@alice:local.example'',
              Redacts := [], Content := ''{join}'', Unsigned := ''{}''\<rparr>)"
    by blast
  with w s c show ?thesis by blast
qed

subsection \<open>The local path comes first\<close>

text \<open>
  C4. \<^verbatim>\<open>joinRoomUsingServers\<close> first builds the event against the local room
  state and, when that succeeds, publishes it with \<^verbatim>\<open>SendEvents\<close> and makes
  no call of the federated handshake: the outcome is status 200 with the room ID when
  the publication succeeds and the internal server error when it fails. An error of
  the local build other than \<^verbatim>\<open>ErrRoomNoExists\<close>, as well as a failure to
  fill the builder, ends the request with the internal server error. With \<^verbatim>\<open>ErrRoomNoExists\<close> and an empty candidate list the outcome is
  status 404, and with a non-empty list the loop over the candidates decides. A call
  of the federated handshake is made only in this last case.
\<close>

theorem local_path_first:
  "(\<forall>err. writeToBuilder env r zeroEventBuilder roomID = Inl err
      \<longrightarrow> joinRoomUsingServers env r roomID servers =
            (InternalServerError, [LogError (Some err) ''r.writeToBuilder failed'']))
   \<and> (\<forall>eb. writeToBuilder env r zeroEventBuilder roomID = Inr eb
      \<longrightarrow> (\<exists>rest. snd (joinRoomUsingServers env r roomID servers) =
                    CallBuildEvent eb (cfg r) (evTime r) # rest)
        \<and> (\<forall>event v. BuildEvent env eb (cfg r) (evTime r) = Inr (event, v)
             \<longrightarrow> (\<exists>rest. snd (joinRoomUsingServers env r roomID servers) =
                     CallBuildEvent eb (cfg r) (evTime r)
                     # CallSendEvents [Headered event v] (ServerName (cfg r)) # rest)
               \<and> (fst (joinRoomUsingServers env r roomID servers) =
                      \<lparr>Code = 200, JSON = RoomIDBody roomID\<rparr>
                    \<or> fst (joinRoomUsingServers env r roomID servers) = InternalServerError)
               \<and> (SendEvents env [Headered event v] (ServerName (cfg r)) = None
                    \<longrightarrow> joinRoomUsingServers env r roomID servers =
                          (\<lparr>Code = 200, JSON = RoomIDBody roomID\<rparr>,
                           [CallBuildEvent eb (cfg r) (evTime r),
                            CallSendEvents [Headered event v] (ServerName (cfg r))]))
               \<and> (\<forall>err. SendEvents env [Headered event v] (ServerName (cfg r)) = Some err
                    \<longrightarrow> joinRoomUsingServers env r roomID servers =
                          (InternalServerError,
                           [CallBuildEvent eb (cfg r) (evTime r),
                            CallSendEvents [Headered event v] (ServerName (cfg r)),
                            LogError (Some err) ''r.producer.SendEvents failed''])))
        \<and> (\<forall>err. BuildEvent env eb (cfg r) (evTime r) = Inl err
             \<longrightarrow> err \<noteq> ErrRoomNoExists
             \<longrightarrow> joinRoomUsingServers env r roomID servers =
                   (InternalServerError,
                    [CallBuildEvent eb (cfg r) (evTime r),
                     LogError (Some err) ''common.BuildEvent failed'']))
        \<and> (BuildEvent env eb (cfg r) (evTime r) = Inl ErrRoomNoExists
             \<longrightarrow> servers = []
             \<longrightarrow> joinRoomUsingServers env r roomID servers =
                   (\<lparr>Code = 404, JSON = NotFound ''No candidate servers found for room''\<rparr>,
                    [CallBuildEvent eb (cfg r) (evTime r)]))
        \<and> (BuildEvent env eb (cfg r) (evTime r) = Inl ErrRoomNoExists
             \<longrightarrow> servers \<noteq> []
             \<longrightarrow> joinRoomUsingServers env r roomID servers =
                   (fst (tryServers env r roomID servers None),
                    CallBuildEvent eb (cfg r) (evTime r)
                    # snd (tryServers env r roomID servers None))))
   \<and> ((\<exists>c\<in>set (snd (joinRoomUsingServers env r roomID servers)). isFederatedCall c)
      \<longrightarrow> servers \<noteq> []
        \<and> (\<exists>eb. writeToBuilder env r zeroEventBuilder roomID = Inr eb
              \<and> BuildEvent env eb (cfg r) (evTime r) = Inl ErrRoomNoExists))"
  by (cases rule: joinRoomUsingServers_cases [of env r roomID servers]) auto

theorem local_path_first_witness:
  "writeToBuilder sampleEnv sampleReq zeroEventBuilder ''!room:b.example'' = Inr sampleBuilder
   \<and> BuildEvent sampleEnv sampleBuilder (cfg sampleReq) (evTime sampleReq) = Inl ErrRoomNoExists
   \<and> joinRoomUsingServers sampleEnv sampleReq ''!room:b.example'' [] =
       (\<lparr>Code = 404, JSON = NotFound ''No candidate servers found for room''\<rparr>,
        [CallBuildEvent sampleBuilder (cfg sampleReq) (evTime sampleReq)])
   \<and> [''b.example''] \<noteq> []
   \<and> joinRoomUsingServers sampleEnv sampleReq ''!room:b.example'' [''b.example''] =
       (fst (tryServers sampleEnv sampleReq ''!room:b.example'' [''b.example''] None),
        CallBuildEvent sampleBuilder (cfg sampleReq) (evTime sampleReq)
        # snd (tryServers sampleEnv sampleReq ''!room:b.example'' [''b.example''] None))
   \<and> writeToBuilder sampleEnvLocal sampleReq zeroEventBuilder ''!room:b.example''
       = Inr sampleBuilder
   \<and> BuildEvent sampleEnvLocal sampleBuilder (cfg sampleReq) (evTime sampleReq)
       = Inr (Event ''@alice:local.example joins !room:b.example'', ''2'')
   \<and> SendEvents sampleEnvLocal
        [Headered (Event ''@alice:local.example joins !room:b.example'') ''2'']
        (ServerName (cfg sampleReq)) = None
   \<and> joinRoomUsingServers sampleEnvLocal sampleReq ''!room:b.example'' [''b.example'']
       = (\<lparr>Code = 200, JSON = RoomIDBody ''!room:b.example''\<rparr>,
          [CallBuildEvent sampleBuilder (cfg sampleReq) (evTime sampleReq),
           CallSendEvents
             [Headered (Event ''@alice:local.example joins !room:b.example'') ''2'']
             (ServerName (cfg sampleReq))])
   \<and> writeToBuilder sampleEnvPublishFails sampleReq zeroEventBuilder ''!room:b.example''
       = Inr sampleBuilder
   \<and> BuildEvent sampleEnvPublishFails sampleBuilder (cfg sampleReq) (evTime sampleReq)
       = Inr (Event ''@alice:local.example joins !room:b.example'', ''2'')
   \<and> SendEvents sampleEnvPublishFails
        [Headered (Event ''@alice:local.example joins !room:b.example'') ''2'']
        (ServerName (cfg sampleReq)) = Some (OtherError ''queue unavailable'')
   \<and> joinRoomUsingServers sampleEnvPublishFails sampleReq ''!room:b.example'' [''b.example'']
       = (InternalServerError,
          [CallBuildEvent sampleBuilder (cfg sampleReq) (evTime sampleReq),
           CallSendEvents
             [Headered (Event ''@alice:local.example joins !room:b.example'') ''2'']
             (ServerName (cfg sampleReq)),
           LogError (Some (OtherError ''queue unavailable''))
             ''r.producer.SendEvents failed''])"
proof -
  have w: "writeToBuilder sampleEnv sampleReq zeroEventBuilder ''!room:b.example''
      = Inr sampleBuilder"
    by (simp add: sample_defs sampleBuilder_def)
  have b: "BuildEvent sampleEnv sampleBuilder (cfg sampleReq) (evTime sampleReq)
      = Inl ErrRoomNoExists"
    by (simp add: sampleEnv_def)
  have n: "[''b.example''] \<noteq> []" by simp
  have w': "writeToBuilder sampleEnvLocal sampleReq zeroEventBuilder ''!room:b.example''
      = Inr sampleBuilder"
    by (simp add: sample_defs sampleBuilder_def sampleEnvLocal_def)
  have b': "BuildEvent sampleEnvLocal sampleBuilder (cfg sampleReq) (evTime sampleReq)
       = Inr (Event ''@alice:local.example joins !room:b.example'', ''2'')"
    by (simp add: sampleEnvLocal_def sampleBuilder_def)
  have s': "SendEvents sampleEnvLocal
        [Headered (Event ''@alice:local.example joins !room:b.example'') ''2'']
        (ServerName (cfg sampleReq)) = None"
    by (simp add: sampleEnvLocal_def sampleEnv_def)
  have c1: "joinRoomUsingServers sampleEnv sampleReq ''!room:b.example'' [] =
       (\<lparr>Code = 404, JSON = NotFound ''No candidate servers found for room''\<rparr>,
        [CallBuildEvent sampleBuilder (cfg sampleReq) (evTime sampleReq)])"
    using local_path_first [of sampleEnv sampleReq "''!room:b.example''" "[]"] w b
    by simp
  have c2: "joinRoomUsingServers sampleEnv sampleReq ''!room:b.example'' [''b.example''] =
       (fst (tryServers sampleEnv sampleReq ''!room:b.example'' [''b.example''] None),
        CallBuildEvent sampleBuilder (cfg sampleReq) (evTime sampleReq)
        # snd (tryServers sampleEnv sampleReq ''!room:b.example'' [''b.example''] None))"
    using local_path_first [of sampleEnv sampleReq "''!room:b.example''" "[''b.example'']"] w b n
    by simp
  have c3: "joinRoomUsingServers sampleEnvLocal sampleReq ''!room:b.example'' [''b.example'']
       = (\<lparr>Code = 200, JSON = RoomIDBody ''!room:b.example''\<rparr>,
          [CallBuildEvent sampleBuilder (cfg sampleReq) (evTime sampleReq),
           CallSendEvents
             [Headered (Event ''@alice:local.example joins !room:b.example'') ''2'']
             (ServerName (cfg sampleReq))])"
    using local_path_first [of sampleEnvLocal sampleReq "''!room:b.example''" "[''b.example'']"]
      w' b' s'
    by simp
  have w'': "writeToBuilder sampleEnvPublishFails sampleReq zeroEventBuilder ''!room:b.example''
      = Inr sampleBuilder"
    by (simp add: sample_defs sampleBuilder_def sampleEnvLocal_def sampleEnvPublishFails_def)
  have b'': "BuildEvent sampleEnvPublishFails sampleBuilder (cfg sampleReq) (evTime sampleReq)
       = Inr (Event ''@alice:local.example joins !room:b.example'', ''2'')"
    by (simp add: sampleEnvPublishFails_def sampleEnvLocal_def sampleBuilder_def)
  have s'': "SendEvents sampleEnvPublishFails
        [Headered (Event ''@alice:local.example joins !room:b.example'') ''2'']
        (ServerName (cfg sampleReq)) = Some (OtherError ''queue unavailable'')"
    by (simp add: sampleEnvPublishFails_def)
  have c4: "joinRoomUsingServers sampleEnvPublishFails sampleReq ''!room:b.example''
        [''b.example'']
       = (InternalServerError,
          [CallBuildEvent sampleBuilder (cfg sampleReq) (evTime sampleReq),
           CallSendEvents
             [Headered (Event ''@alice:local.example joins !room:b.example'') ''2'']
             (ServerName (cfg sampleReq)),
           LogError (Some (OtherError ''queue unavailable''))
             ''r.producer.SendEvents failed''])"
    using local_path_first [of sampleEnvPublishFails sampleReq "''!room:b.example''"
        "[''b.example'']"] w'' b'' s''
    by simp
  from w b c1 n c2 w' b' s' c3 w'' b'' s'' c4 show ?thesis by (intro conjI)
qed

subsection \<open>Joining by a local alias\<close>

lemma joinRoomUsingServer_contacts:
  "QueryRoomVersionCapabilities env = Inr avail \<Longrightarrow>
   CallMakeJoin server roomID (userID r) (map fst avail)
     \<in> set (snd (joinRoomUsingServer env r roomID server))"
  by (cases rule: joinRoomUsingServer_cases [of env r roomID server]) auto

lemma tryServers_single:
  "tryServers env r roomID [server] lastErr =
     (case joinRoomUsingServer env r roomID server of
        (Inl err, t) \<Rightarrow>
          (InternalServerError,
           t @ [LogWarn (Some err) server ''Failed to join room using server'',
                LogError (Some err) ''failed to join through any server''])
      | (Inr response, t) \<Rightarrow> (response, t))"
  by (simp split: prod.splits sum.splits)

text \<open>
  C10. When the domain of an alias is the local server name and the alias resolves to
  a room ID, \<^verbatim>\<open>joinRoomByAlias\<close> goes on with the candidate list that holds
  the local server name only. If the room is then not known locally, the outcome is
  that of one handshake with the local server itself: the make-join call goes to the
  local server name once the supported versions are known, and the status is not 404.
\<close>

theorem local_alias_candidate:
  assumes "SplitID env (CHR ''#'') roomAlias = Inr (localpart, ServerName (cfg r))"
      and "GetRoomIDForAlias env roomAlias = Inr roomID"
      and "roomID \<noteq> []"
  shows "joinRoomByAlias env r roomAlias =
           (fst (joinRoomUsingServers env r roomID [ServerName (cfg r)]),
            CallGetRoomIDForAlias roomAlias
            # snd (joinRoomUsingServers env r roomID [ServerName (cfg r)]))
         \<and> (\<forall>eb. writeToBuilder env r zeroEventBuilder roomID = Inr eb
              \<longrightarrow> BuildEvent env eb (cfg r) (evTime r) = Inl ErrRoomNoExists
              \<longrightarrow> joinRoomByAlias env r roomAlias =
                    (fst (tryServers env r roomID [ServerName (cfg r)] None),
                     CallGetRoomIDForAlias roomAlias
                     # CallBuildEvent eb (cfg r) (evTime r)
                     # snd (tryServers env r roomID [ServerName (cfg r)] None))
                \<and> set (snd (joinRoomUsingServer env r roomID (ServerName (cfg r))))
                    \<subseteq> set (snd (joinRoomByAlias env r roomAlias))
                \<and> (\<forall>avail. QueryRoomVersionCapabilities env = Inr avail
                      \<longrightarrow> CallMakeJoin (ServerName (cfg r)) roomID (userID r) (map fst avail)
                          \<in> set (snd (joinRoomByAlias env r roomAlias)))
                \<and> Code (fst (joinRoomByAlias env r roomAlias)) \<noteq> 404)"
proof -
  have a: "joinRoomByAlias env r roomAlias =
           (fst (joinRoomUsingServers env r roomID [ServerName (cfg r)]),
            CallGetRoomIDForAlias roomAlias
            # snd (joinRoomUsingServers env r roomID [ServerName (cfg r)]))"
    using assms by (simp add: joinRoomByAlias_def split_beta)
  have b: "joinRoomByAlias env r roomAlias =
             (fst (tryServers env r roomID [ServerName (cfg r)] None),
              CallGetRoomIDForAlias roomAlias
              # CallBuildEvent eb (cfg r) (evTime r)
              # snd (tryServers env r roomID [ServerName (cfg r)] None))"
    if "writeToBuilder env r zeroEventBuilder roomID = Inr eb"
      and "BuildEvent env eb (cfg r) (evTime r) = Inl ErrRoomNoExists" for eb
    using that a
    by (cases rule: joinRoomUsingServers_cases [of env r roomID "[ServerName (cfg r)]"]) auto
  have c: "set (snd (joinRoomUsingServer env r roomID (ServerName (cfg r))))
             \<subseteq> set (snd (tryServers env r roomID [ServerName (cfg r)] None))"
    by (auto simp: tryServers_single split: prod.splits sum.splits)
  show ?thesis
  proof (intro conjI allI impI)
    show "joinRoomByAlias env r roomAlias =
           (fst (joinRoomUsingServers env r roomID [ServerName (cfg r)]),
            CallGetRoomIDForAlias roomAlias
            # snd (joinRoomUsingServers env r roomID [ServerName (cfg r)]))"
      by (rule a)
  next
    fix eb
    assume w: "writeToBuilder env r zeroEventBuilder roomID = Inr eb"
       and e: "BuildEvent env eb (cfg r) (evTime r) = Inl ErrRoomNoExists"
    show "joinRoomByAlias env r roomAlias =
             (fst (tryServers env r roomID [ServerName (cfg r)] None),
              CallGetRoomIDForAlias roomAlias
              # CallBuildEvent eb (cfg r) (evTime r)
              # snd (tryServers env r roomID [ServerName (cfg r)] None))"
      by (rule b [OF w e])
    show sub: "set (snd (joinRoomUsingServer env r roomID (ServerName (cfg r))))
             \<subseteq> set (snd (joinRoomByAlias env r roomAlias))"
      using c b [OF w e] by auto
    show "Code (fst (joinRoomByAlias env r roomAlias)) \<noteq> 404"
      using b [OF w e] tryServers_code [of env r roomID "[ServerName (cfg r)]" None]
      by simp
    fix avail
    assume "QueryRoomVersionCapabilities env = Inr avail"
    from joinRoomUsingServer_contacts [OF this, of "ServerName (cfg r)" roomID r] sub
    show "CallMakeJoin (ServerName (cfg r)) roomID (userID r) (map fst avail)
            \<in> set (snd (joinRoomByAlias env r roomAlias))"
      by blast
  qed
qed

theorem local_alias_candidate_witness:
  "SplitID sampleEnv (CHR ''#'') ''#room:local.example''
     = Inr (''room'', ServerName (cfg sampleReq))
   \<and> GetRoomIDForAlias sampleEnv ''#room:local.example'' = Inr ''!room:local.example''
   \<and> ''!room:local.example'' \<noteq> []
   \<and> QueryRoomVersionCapabilities sampleEnv = Inr [(''2'', ''stable'')]
   \<and> CallMakeJoin ''local.example'' ''!room:local.example'' ''@alice:local.example'' [''2'']
       \<in> set (snd (joinRoomByAlias sampleEnv sampleReq ''#room:local.example''))
   \<and> Code (fst (joinRoomByAlias sampleEnv sampleReq ''#room:local.example'')) \<noteq> 404"
proof -
  have s: "SplitID sampleEnv (CHR ''#'') ''#room:local.example''
      = Inr (''room'', ServerName (cfg sampleReq))"
    by (simp add: sampleEnv_def sampleSplitID_def sampleReq_def sampleConfig_def)
  have g: "GetRoomIDForAlias sampleEnv ''#room:local.example'' = Inr ''!room:local.example''"
    by (simp add: sampleEnv_def)
  have n: "''!room:local.example'' \<noteq> []" by simp
  have w: "writeToBuilder sampleEnv sampleReq zeroEventBuilder ''!room:local.example''
      = Inr (sampleBuilder\<lparr>RoomID := ''!room:local.example''\<rparr>)"
    by (simp add: sample_defs sampleBuilder_def)
  have b: "BuildEvent sampleEnv (sampleBuilder\<lparr>RoomID := ''!room:local.example''\<rparr>)
      (cfg sampleReq) (evTime sampleReq) = Inl ErrRoomNoExists"
    by (simp add: sampleEnv_def)
  have q: "QueryRoomVersionCapabilities sampleEnv = Inr [(''2'', ''stable'')]"
    by (simp add: sampleEnv_def)
  from local_alias_candidate [OF s g n] w b q
  have "CallMakeJoin (ServerName (cfg sampleReq)) ''!room:local.example'' (userID sampleReq)
          (map fst [(''2'', ''stable'')])
        \<in> set (snd (joinRoomByAlias sampleEnv sampleReq ''#room:local.example''))"
    and c: "Code (fst (joinRoomByAlias sampleEnv sampleReq ''#room:local.example'')) \<noteq> 404"
    by blast+
  then have "CallMakeJoin ''local.example'' ''!room:local.example'' ''@alice:local.example''
      [''2''] \<in> set (snd (joinRoomByAlias sampleEnv sampleReq ''#room:local.example''))"
    by (simp add: sampleReq_def sampleConfig_def)
  with s g n q c show ?thesis by blast
qed

subsection \<open>The candidate servers of a join by room ID\<close>

lemma firstSeen_set: "set (firstSeen xs) = set xs"
  by (induction xs rule: firstSeen.induct) auto

lemma firstSeen_distinct: "distinct (firstSeen xs)"
  by (induction xs rule: firstSeen.induct) (auto simp: firstSeen_set)

text \<open>
  The loop appends to the servers found so far the new domains in the order of their
  first occurrence, and the map then holds the domains seen before or in the loop.
\<close>

lemma inviterServers_firstSeen:
  "map (inviterDomain env) inviters = map Some ds \<Longrightarrow>
   inviterServers env inviters servers seen =
     Inr (servers @ firstSeen (filter (\<lambda>d. \<not> seen d) ds), \<lambda>d. seen d \<or> d \<in> set ds)"
proof (induction inviters arbitrary: servers seen ds)
  case Nil
  then show ?case by simp
next
  case (Cons u us)
  then obtain d ds' where ds: "ds = d # ds'" by (cases ds) auto
  with Cons.prems have d: "inviterDomain env u = Some d"
    and rest: "map (inviterDomain env) us = map Some ds'" by auto
  from d obtain l where split: "SplitID env (CHR ''@'') u = Inr (l, d)"
    by (auto simp: inviterDomain_def split: sum.splits)
  show ?case
  proof (cases "seen d")
    case True
    have "(\<lambda>x. seen x \<or> x \<in> set ds') = (\<lambda>x. seen x \<or> x \<in> set ds)"
      using True ds by auto
    with True show ?thesis
      using Cons.IH [OF rest, of servers seen] split ds by simp
  next
    case False
    have f: "filter (\<lambda>x. \<not> (seen(d := True)) x) ds' =
             filter (\<lambda>y. y \<noteq> d) (filter (\<lambda>x. \<not> seen x) ds')"
      by (induction ds') auto
    have g: "(\<lambda>x. (seen(d := True)) x \<or> x \<in> set ds') = (\<lambda>x. seen x \<or> x \<in> set ds)"
      using ds by auto
    have "inviterServers env (u # us) servers seen =
            inviterServers env us (servers @ [d]) (seen(d := True))"
      using split False by simp
    also have "\<dots> = Inr ((servers @ [d]) @ firstSeen (filter (\<lambda>x. \<not> (seen(d := True)) x) ds'),
                         \<lambda>x. (seen(d := True)) x \<or> x \<in> set ds')"
      by (rule Cons.IH [OF rest])
    also have "\<dots> = Inr (servers @ firstSeen (filter (\<lambda>x. \<not> seen x) ds),
                         \<lambda>x. seen x \<or> x \<in> set ds)"
      unfolding f g using False ds by simp
    finally show ?thesis .
  qed
qed

text \<open>
  C2. When the inviters' user IDs split into the domains \<open>ds\<close> and the room ID into
  the domain \<open>d\<close>, the candidate list is the distinct domains of \<open>ds\<close> in the order of
  their first occurrence, followed by \<open>d\<close> unless \<open>d\<close> is the local server name or is
  among \<open>ds\<close>; the list has no duplicates; and it is the list that
  \<^verbatim>\<open>joinRoomByID\<close> hands to \<^verbatim>\<open>joinRoomUsingServers\<close>.
\<close>

theorem candidate_servers_distinct_ordered:
  assumes "map (inviterDomain env) inviters = map Some ds"
      and "SplitID env (CHR ''!'') roomID = Inr (localpart, d)"
  shows "candidateServers env r roomID inviters =
           Inr (firstSeen ds @ (if d \<noteq> ServerName (cfg r) \<and> d \<notin> set ds then [d] else []))
         \<and> distinct (firstSeen ds
                      @ (if d \<noteq> ServerName (cfg r) \<and> d \<notin> set ds then [d] else []))
         \<and> (QueryInvitesForUser env roomID (userID r) = Inr inviters
              \<longrightarrow> joinRoomByID env r roomID =
                    (fst (joinRoomUsingServers env r roomID
                       (firstSeen ds
                        @ (if d \<noteq> ServerName (cfg r) \<and> d \<notin> set ds then [d] else []))),
                     CallQueryInvitesForUser roomID (userID r)
                     # snd (joinRoomUsingServers env r roomID
                         (firstSeen ds
                          @ (if d \<noteq> ServerName (cfg r) \<and> d \<notin> set ds then [d] else [])))))"
proof -
  have c: "candidateServers env r roomID inviters =
           Inr (firstSeen ds @ (if d \<noteq> ServerName (cfg r) \<and> d \<notin> set ds then [d] else []))"
    using inviterServers_firstSeen [OF assms(1), of "[]" "\<lambda>_. False"] assms(2)
    by (simp add: candidateServers_def)
  have "distinct (firstSeen ds
                  @ (if d \<noteq> ServerName (cfg r) \<and> d \<notin> set ds then [d] else []))"
    by (simp add: firstSeen_distinct firstSeen_set)
  moreover have "joinRoomByID env r roomID =
                    (fst (joinRoomUsingServers env r roomID
                       (firstSeen ds
                        @ (if d \<noteq> ServerName (cfg r) \<and> d \<notin> set ds then [d] else []))),
                     CallQueryInvitesForUser roomID (userID r)
                     # snd (joinRoomUsingServers env r roomID
                         (firstSeen ds
                          @ (if d \<noteq> ServerName (cfg r) \<and> d \<notin> set ds then [d] else []))))"
    if "QueryInvitesForUser env roomID (userID r) = Inr inviters"
    using that c by (simp add: joinRoomByID_def split_beta)
  ultimately show ?thesis using c by blast
qed

theorem candidate_servers_distinct_ordered_witness:
  "map (inviterDomain sampleEnv) [''@bob:b.example'', ''@carol:c.example'', ''@dave:b.example'']
     = map Some [''b.example'', ''c.example'', ''b.example'']
   \<and> SplitID sampleEnv (CHR ''!'') ''!room:r.example'' = Inr (''room'', ''r.example'')
   \<and> candidateServers sampleEnv sampleReq ''!room:r.example''
        [''@bob:b.example'', ''@carol:c.example'', ''@dave:b.example'']
     = Inr [''b.example'', ''c.example'', ''r.example'']
   \<and> distinct [''b.example'', ''c.example'', ''r.example'']"
proof -
  have a: "map (inviterDomain sampleEnv)
       [''@bob:b.example'', ''@carol:c.example'', ''@dave:b.example'']
     = map Some [''b.example'', ''c.example'', ''b.example'']"
    by (simp add: inviterDomain_def sampleEnv_def sampleSplitID_def)
  have b: "SplitID sampleEnv (CHR ''!'') ''!room:r.example'' = Inr (''room'', ''r.example'')"
    by (simp add: sampleEnv_def sampleSplitID_def)
  have e: "firstSeen [''b.example'', ''c.example'', ''b.example'']
           @ (if ''r.example'' \<noteq> ServerName (cfg sampleReq)
                 \<and> ''r.example'' \<notin> set [''b.example'', ''c.example'', ''b.example'']
              then [''r.example''] else [])
         = [''b.example'', ''c.example'', ''r.example'']"
    by (simp add: sampleReq_def sampleConfig_def)
  from candidate_servers_distinct_ordered [OF a b, of sampleReq] a b
  show ?thesis unfolding e by blast
qed

subsection \<open>Targets that are neither a room ID nor an alias\<close>

lemma firstRuneString_ascii:
  "of_char c < (0x80 :: nat) \<Longrightarrow> firstRuneString (c # s) = Inr [c]"
  by (simp add: firstRuneString_def)

text \<open>
  Once the body, the timestamp, the user ID and the profile are there, a target that
  is not empty and starts with neither sigil is answered with status 400 and a reason
  that quotes its first rune; an alias that \<^verbatim>\<open>SplitID\<close> rejects is answered with
  status 400 as well.
\<close>

lemma invalid_first_character:
  assumes "UnmarshalJSONRequest env request = Inr body"
      and "ParseTSParam env request = Inr ts"
      and "SplitID env (CHR ''@'') (UserID device) = Inr (localpart, domain)"
      and "GetProfileByLocalpart env localpart = Inr profile"
      and "roomIDOrAlias \<noteq> []"
      and "\<not> HasPrefix roomIDOrAlias ''!''" and "\<not> HasPrefix roomIDOrAlias ''#''"
      and "firstRuneString roomIDOrAlias = Inr c"
  shows "JoinRoomByIDOrAlias env request device roomIDOrAlias config =
           (Inr \<lparr>Code = 400,
                 JSON = BadJSON (''Invalid first character '' @ [quote] @ c @ [quote]
                                 @ '' for room ID or alias'')\<rparr>,
            [CallGetProfileByLocalpart localpart])"
  using assms by (simp add: JoinRoomByIDOrAlias_def)

lemma firstRuneString_nonempty:
  "s \<noteq> [] \<Longrightarrow> \<exists>c. firstRuneString s = Inr c"
  by (simp add: firstRuneString_def Let_def)

lemma alias_without_domain:
  "SplitID env (CHR ''#'') roomAlias = Inl err \<Longrightarrow>
   joinRoomByAlias env r roomAlias =
     (\<lparr>Code = 400,
       JSON = BadJSON (''Room alias must be in the form '' @ [quote]
                       @ ''#localpart:domain'' @ [quote])\<rparr>, [])"
  by (simp add: joinRoomByAlias_def)

text \<open>
  The empty target starts with neither sigil, so the last branch of the entry point
  is reached, and indexing the empty slice of runes panics.
\<close>

lemma empty_target_panics:
  assumes "UnmarshalJSONRequest env request = Inr body"
      and "ParseTSParam env request = Inr ts"
      and "SplitID env (CHR ''@'') (UserID device) = Inr (localpart, domain)"
      and "GetProfileByLocalpart env localpart = Inr profile"
  shows "JoinRoomByIDOrAlias env request device [] config =
           (Inl IndexOutOfRange, [CallGetProfileByLocalpart localpart])"
  using assms by (simp add: JoinRoomByIDOrAlias_def HasPrefix_def firstRuneString_def)

text \<open>
  C5. The claim holds for the target of the specification's scenario, and fails for
  the empty target, which starts with neither sigil: there the entry point panics
  instead of answering with status 400.
\<close>

theorem invalid_sigil_bad_request_except_empty:
  "JoinRoomByIDOrAlias sampleEnv ''{}'' sampleDevice ''@not-a-room-or-alias'' sampleConfig =
     (Inr \<lparr>Code = 400,
           JSON = BadJSON (''Invalid first character '' @ [quote] @ ''@'' @ [quote]
                           @ '' for room ID or alias'')\<rparr>,
      [CallGetProfileByLocalpart ''alice''])
   \<and> fst (JoinRoomByIDOrAlias sampleEnv ''{}'' sampleDevice ''#nocolon'' sampleConfig) =
       Inr \<lparr>Code = 400,
            JSON = BadJSON (''Room alias must be in the form '' @ [quote]
                            @ ''#localpart:domain'' @ [quote])\<rparr>
   \<and> \<not> HasPrefix [] ''!'' \<and> \<not> HasPrefix [] ''#''
   \<and> isl (fst (JoinRoomByIDOrAlias sampleEnv ''{}'' sampleDevice [] sampleConfig))"
  by (simp add: JoinRoomByIDOrAlias_def joinRoomByAlias_def sampleEnv_def sampleSplitID_def
      sampleDevice_def HasPrefix_def firstRuneString_def)

text \<open>
  C9. On the empty target, with a valid body, timestamp, user ID and profile, the
  entry point returns no response: it panics with an index out of range.
\<close>

theorem empty_target_index_out_of_range:
  "JoinRoomByIDOrAlias sampleEnv ''{}'' sampleDevice [] sampleConfig =
     (Inl IndexOutOfRange, [CallGetProfileByLocalpart ''alice''])"
  by (simp add: JoinRoomByIDOrAlias_def sampleEnv_def sampleSplitID_def
      sampleDevice_def HasPrefix_def firstRuneString_def)

end
